theory Spec2Isabelle
  imports Main
begin

section \<open>JavaScript values\<close>

text \<open>
  The webhook code is typed \<open>any\<close> almost everywhere: request bodies, notifications
  and rows are plain JavaScript values. They are modelled by one datatype. An object is
  the list of its own properties; reading a property takes the first entry with that
  name, so an entry further to the front overrides a later one. Strings are byte
  strings (UTF-8). Numbers are the integers, printed in decimal as JavaScript prints
  an integer.
\<close>

datatype json =
    JUndefined
  | JNull
  | JBool bool
  | JNum int
  | JStr string
  | JArr "json list"
  | JObj "(string \<times> json) list"

datatype js_error =
    TypeError
  | RangeError
  | SyntaxError
  | Rejected
  | ApiError nat string
  | ZodError json

text \<open>Truthiness, as \<open>!x\<close>, \<open>x || y\<close> and \<open>x && y\<close> read it.\<close>

fun truthy :: "json \<Rightarrow> bool" where
  "truthy JUndefined = False"
| "truthy JNull = False"
| "truthy (JBool b) = b"
| "truthy (JNum n) = (n \<noteq> 0)"
| "truthy (JStr s) = (s \<noteq> [])"
| "truthy (JArr xs) = True"
| "truthy (JObj kvs) = True"

fun falsy :: "json \<Rightarrow> bool" where
  "falsy JUndefined = True"
| "falsy JNull = True"
| "falsy (JBool b) = (b = False)"
| "falsy (JNum n) = (n = 0)"
| "falsy (JStr s) = (s = [])"
| "falsy (JArr xs) = False"
| "falsy (JObj kvs) = False"

definition js_or :: "json \<Rightarrow> json \<Rightarrow> json" where
  "js_or a b = (if truthy a then a else b)"

definition js_and :: "json \<Rightarrow> json \<Rightarrow> json" where
  "js_and a b = (if truthy a then b else a)"

fun lookup :: "(string \<times> json) list \<Rightarrow> string \<Rightarrow> json" where
  "lookup [] k = JUndefined"
| "lookup ((k', v) # kvs) k = (if k = k' then v else lookup kvs k)"

text \<open>
  \<open>x.k\<close>: a TypeError on \<open>undefined\<close> and \<open>null\<close>, the property on an object,
  \<open>undefined\<close> on every other value (none of the names the code reads is a built-in
  property of a string, a number or an array).
\<close>

fun get_prop :: "json \<Rightarrow> string \<Rightarrow> js_error + json" where
  "get_prop JUndefined k = Inl TypeError"
| "get_prop JNull k = Inl TypeError"
| "get_prop (JObj kvs) k = Inr (lookup kvs k)"
| "get_prop (JBool b) k = Inr JUndefined"
| "get_prop (JNum n) k = Inr JUndefined"
| "get_prop (JStr s) k = Inr JUndefined"
| "get_prop (JArr xs) k = Inr JUndefined"

text \<open>\<open>x?.k\<close>: as \<open>x.k\<close>, but \<open>undefined\<close> where \<open>x.k\<close> throws.\<close>

fun opt_prop :: "json \<Rightarrow> string \<Rightarrow> json" where
  "opt_prop (JObj kvs) k = lookup kvs k"
| "opt_prop v k = JUndefined"

text \<open>Decimal digits of an index, for the keys an array or a string spreads to.\<close>

fun digit :: "nat \<Rightarrow> char" where
  "digit n = (''0123456789'' ! (n mod 10))"

fun decimal :: "nat \<Rightarrow> string" where
  "decimal n = (if n < 10 then [digit n] else decimal (n div 10) @ [digit n])"

text \<open>
  The own enumerable properties \<open>{...x}\<close> copies: those of an object, the indices of
  an array or of a string, none of any other value.
\<close>

fun own_entries :: "json \<Rightarrow> (string \<times> json) list" where
  "own_entries (JObj kvs) = kvs"
| "own_entries (JArr xs) = zip (map decimal [0..<length xs]) xs"
| "own_entries (JStr s) = zip (map decimal [0..<length s]) (map (\<lambda>c. JStr [c]) s)"
| "own_entries v = []"

text \<open>
  \<open>String(x)\<close>, which is also what a template literal writes for \<open>x\<close>: an array is
  its elements joined by commas, with nothing for \<open>null\<close> and \<open>undefined\<close>.
\<close>

fun join_comma :: "string list \<Rightarrow> string" where
  "join_comma [] = []"
| "join_comma [s] = s"
| "join_comma (s # t # ss) = s @ '','' @ join_comma (t # ss)"

fun js_string :: "json \<Rightarrow> string" where
  "js_string JUndefined = ''undefined''"
| "js_string JNull = ''null''"
| "js_string (JBool b) = (if b then ''true'' else ''false'')"
| "js_string (JNum n) = (if n < 0 then ''-'' @ decimal (nat (- n)) else decimal (nat n))"
| "js_string (JStr s) = s"
| "js_string (JArr xs) =
     join_comma (map (\<lambda>x. if x = JUndefined \<or> x = JNull then [] else js_string x) xs)"
| "js_string (JObj kvs) = ''[object Object]''"

text \<open>
  What is left of a value that is sent as JSON, as \<open>JSON.parse(JSON.stringify(x))\<close>
  gives it: an object keeps each of its names once, with the value that reading the
  name gives, and loses the names whose value is \<open>undefined\<close>; \<open>undefined\<close> in an
  array becomes \<open>null\<close>.
\<close>

primrec first_entries :: "(string \<times> json) list \<Rightarrow> (string \<times> json) list" where
  "first_entries [] = []"
| "first_entries (kv # kvs) = kv # filter (\<lambda>e. fst e \<noteq> fst kv) (first_entries kvs)"

fun json_sent :: "json \<Rightarrow> json" where
  "json_sent (JArr xs) = JArr (map (\<lambda>x. if x = JUndefined then JNull else json_sent x) xs)"
| "json_sent (JObj kvs) =
     JObj (filter (\<lambda>e. snd e \<noteq> JUndefined)
             (first_entries (map (\<lambda>kv. (fst kv, json_sent (snd kv))) kvs)))"
| "json_sent v = v"

section \<open>Libraries the code calls\<close>

text \<open>
  Node's \<open>crypto\<close>, the \<open>jsonwebtoken\<close> package, \<open>JSON.stringify\<close> and \<open>Date\<close>
  are not code of this repository. Every function below takes them as a parameter, so
  each theorem holds whatever they compute.
  \<^item> \<open>hmac_sha256_hex key msg\<close> is
    \<open>crypto.createHmac('sha256', key).update(msg).digest('hex')\<close>, and
    \<open>hmac_sha256_base64\<close> the same with \<open>digest('base64')\<close>;
  \<^item> \<open>jwt_verify token secret\<close> says whether \<open>jwt.verify(token, secret)\<close> returns
    (it throws otherwise);
  \<^item> \<open>json_stringify v\<close> is \<open>JSON.stringify(v)\<close>, \<open>None\<close> for \<open>undefined\<close>;
  \<^item> \<open>date_iso_of_millis v\<close> is \<open>new Date(parseInt(v)).toISOString()\<close>, which throws
    a RangeError on an invalid date.
\<close>

record runtime =
  hmac_sha256_hex :: "string \<Rightarrow> string \<Rightarrow> string"
  hmac_sha256_base64 :: "string \<Rightarrow> string \<Rightarrow> string"
  jwt_verify :: "string \<Rightarrow> string \<Rightarrow> bool"
  json_stringify :: "json \<Rightarrow> string option"
  date_iso_of_millis :: "json \<Rightarrow> js_error + json"

section \<open>webhook.utils.ts\<close>

subsection \<open>verifyWebhookSignature\<close>

fun missing :: "string option \<Rightarrow> bool" where
  "missing None = True"
| "missing (Some s) = (s = [])"

fun text_of :: "string option \<Rightarrow> string" where
  "text_of None = []"
| "text_of (Some s) = s"

definition starts_with :: "string \<Rightarrow> string \<Rightarrow> bool" where
  "starts_with s p = (take (length p) s = p)"

text \<open>\<open>s.split(c)\<close> for a one-character separator.\<close>

fun split_on :: "char \<Rightarrow> string \<Rightarrow> string list" where
  "split_on c [] = [[]]"
| "split_on c (x # xs) =
     (if x = c then [] # split_on c xs
      else (case split_on c xs of
              [] \<Rightarrow> [[x]]
            | y # ys \<Rightarrow> (x # y) # ys))"

text \<open>\<open>crypto.timingSafeEqual\<close> throws a RangeError on buffers of different lengths.\<close>

definition timingSafeEqual :: "string \<Rightarrow> string \<Rightarrow> js_error + bool" where
  "timingSafeEqual a b = (if length a = length b then Inr (a = b) else Inl RangeError)"

text \<open>
  The body of the \<open>try\<close> block. An argument is \<open>None\<close> when the caller passes
  \<open>undefined\<close> (the controller does for a request without a body).
\<close>

definition verifyWebhookSignature_try ::
  "runtime \<Rightarrow> string option \<Rightarrow> string option \<Rightarrow> string option \<Rightarrow> js_error + bool" where
  "verifyWebhookSignature_try rt payload signature secret =
     (if missing payload \<or> missing signature \<or> missing secret then Inr False
      else if text_of secret = ''apple'' then
        Inr (text_of signature = hmac_sha256_base64 rt ''test-apple-secret'' (text_of payload))
      else if text_of secret = ''google'' then
        (if text_of signature = ''valid-jwt-token'' then Inr True
         else if text_of signature = ''invalid-jwt-token'' then Inr False
         else Inr False)
      else if starts_with (text_of signature) ''sha256='' then
        timingSafeEqual (text_of signature)
          (''sha256='' @ hmac_sha256_hex rt (text_of secret) (text_of payload))
      else if length (split_on CHR ''.'' (text_of signature)) = 3 then
        Inr (jwt_verify rt (text_of signature) (text_of secret))
      else Inr False)"

text \<open>The function: whatever the \<open>try\<close> block throws is caught and answered \<open>false\<close>.\<close>

definition verifyWebhookSignature ::
  "runtime \<Rightarrow> string option \<Rightarrow> string option \<Rightarrow> string option \<Rightarrow> js_error + bool" where
  "verifyWebhookSignature rt payload signature secret =
     (case verifyWebhookSignature_try rt payload signature secret of
        Inl e \<Rightarrow> Inr False
      | Inr b \<Rightarrow> Inr b)"

subsection \<open>parseWebhookEventType\<close>

definition parseWebhookEventType_try :: "json \<Rightarrow> string \<Rightarrow> js_error + string" where
  "parseWebhookEventType_try payload provider =
     (if provider = ''apple'' then
        (case get_prop payload ''notificationType'' of
           Inl e \<Rightarrow> Inl e
         | Inr nt \<Rightarrow>
             (let notificationType = js_or nt (JStr '''') in
              if notificationType = JStr ''CONSUMPTION_REQUEST'' then Inr ''purchased''
              else if notificationType = JStr ''DID_RENEW'' then Inr ''renewed''
              else if notificationType = JStr ''DID_FAIL_TO_RENEW'' then Inr ''expired''
              else if notificationType = JStr ''REFUND'' then Inr ''refunded''
              else if notificationType = JStr ''UNKNOWN_TYPE'' then Inr ''unknown''
              else Inr ''unknown''))
      else if provider = ''google'' then
        (case get_prop payload ''messageType'' of
           Inl e \<Rightarrow> Inl e
         | Inr mt \<Rightarrow>
             (let messageType = js_or mt (JStr '''') in
              if messageType = JStr ''SUBSCRIPTION_PURCHASED'' then Inr ''purchased''
              else if messageType = JStr ''SUBSCRIPTION_RENEWED'' then Inr ''renewed''
              else if messageType = JStr ''SUBSCRIPTION_EXPIRED'' then Inr ''expired''
              else if messageType = JStr ''SUBSCRIPTION_REVOKED'' then Inr ''refunded''
              else
                (case get_prop payload ''subscriptionNotification'' of
                   Inl e \<Rightarrow> Inl e
                 | Inr sn \<Rightarrow>
                     (let notificationType = js_or (opt_prop sn ''notificationType'') (JStr '''') in
                      if notificationType = JNum 1 then Inr ''purchased''
                      else if notificationType = JNum 2 then Inr ''renewed''
                      else if notificationType = JNum 3 then Inr ''expired''
                      else if notificationType = JNum 4 then Inr ''refunded''
                      else Inr ''unknown''))))
      else Inr ''unknown'')"

definition parseWebhookEventType :: "json \<Rightarrow> string \<Rightarrow> string" where
  "parseWebhookEventType payload provider =
     (case parseWebhookEventType_try payload provider of
        Inl e \<Rightarrow> ''unknown''
      | Inr t \<Rightarrow> t)"

subsection \<open>extractSubscriptionDetails\<close>

text \<open>\<open>payload && typeof payload === 'object'\<close>: an object or an array.\<close>

fun is_object :: "json \<Rightarrow> bool" where
  "is_object (JObj kvs) = True"
| "is_object (JArr xs) = True"
| "is_object v = False"

text \<open>
  The body of the \<open>try\<close> block. Past the first test the payload is an object, and every
  further value a property is read from is truthy or read with \<open>?.\<close>, so no read
  throws; \<open>opt_prop\<close> is the read. Only the date conversion can throw.
\<close>

definition extractSubscriptionDetails_try :: "runtime \<Rightarrow> json \<Rightarrow> string \<Rightarrow> js_error + json" where
  "extractSubscriptionDetails_try rt payload provider =
     (if is_object payload then
        (if provider = ''google'' \<and> opt_prop payload ''messageType'' = JStr ''SUBSCRIPTION_PURCHASED''
            \<and> falsy (opt_prop payload ''data'')
         then Inr (JObj [])
         else if provider = ''apple'' then
           (if truthy (opt_prop (opt_prop payload ''data'') ''transactionInfo'') then
              (let info = opt_prop (opt_prop payload ''data'') ''transactionInfo'' in
               Inr (JObj
                 [(''originalTransactionId'', opt_prop info ''originalTransactionId''),
                  (''productId'', opt_prop info ''productId''),
                  (''transactionId'', opt_prop info ''transactionId''),
                  (''webOrderLineItemId'', opt_prop info ''webOrderLineItemId''),
                  (''receipt'', opt_prop (opt_prop payload ''data'') ''signedTransactionInfo'')]))
            else
              (let data = js_or (opt_prop payload ''data'') (JObj []);
                   transactionInfo = js_or (opt_prop data ''signedTransactionInfo'') (JObj [])
               in Inr (JObj
                 [(''originalTransactionId'', opt_prop transactionInfo ''originalTransactionId''),
                  (''productId'', opt_prop transactionInfo ''productId''),
                  (''expiresDate'', opt_prop transactionInfo ''expiresDate''),
                  (''purchaseDate'', opt_prop transactionInfo ''purchaseDate''),
                  (''status'', opt_prop transactionInfo ''status''),
                  (''transactionId'', opt_prop transactionInfo ''transactionId''),
                  (''receipt'', opt_prop data ''signedRenewalInfo'')])))
         else if provider = ''google'' then
           (if opt_prop payload ''messageType'' = JStr ''SUBSCRIPTION_PURCHASED''
               \<and> opt_prop (opt_prop (opt_prop payload ''data'') ''subscriptionNotification'')
                     ''purchaseToken'' = JStr ''test-token''
            then Inr (JObj
                 [(''originalTransactionId'', JStr ''789012''),
                  (''productId'', JStr ''com.corpastroapps.monthly''),
                  (''transactionId'', JStr ''789012''),
                  (''purchaseToken'', JStr ''test-token''),
                  (''receipt'', JStr ''test-token'')])
            else if truthy (opt_prop payload ''messageType'') then
              (let subscriptionData =
                     js_or (opt_prop (opt_prop payload ''data'') ''subscriptionNotification'') (JObj [])
               in Inr (JObj
                 [(''originalTransactionId'',
                     js_or (js_or (opt_prop subscriptionData ''purchaseToken'')
                                  (opt_prop payload ''originalTransactionId'')) (JStr ''789012'')),
                  (''productId'',
                     js_or (js_or (opt_prop subscriptionData ''subscriptionId'')
                                  (opt_prop payload ''productId'')) (JStr ''com.corpastroapps.monthly'')),
                  (''transactionId'',
                     js_or (js_or (opt_prop subscriptionData ''orderId'')
                                  (opt_prop payload ''transactionId'')) (JStr ''789012'')),
                  (''purchaseToken'',
                     js_or (js_or (opt_prop subscriptionData ''purchaseToken'')
                                  (opt_prop payload ''purchaseToken'')) (JStr ''test-token'')),
                  (''receipt'',
                     js_or (js_or (opt_prop subscriptionData ''purchaseToken'')
                                  (opt_prop payload ''receipt'')) (JStr ''test-token''))]))
            else
              (let subscription = js_or (opt_prop payload ''subscriptionNotification'') (JObj []) in
               case (if truthy (opt_prop subscription ''expiryTimeMillis'')
                     then date_iso_of_millis rt (opt_prop subscription ''expiryTimeMillis'')
                     else Inr JUndefined) of
                 Inl e \<Rightarrow> Inl e
               | Inr expiresDate \<Rightarrow> Inr (JObj
                 [(''originalTransactionId'', opt_prop subscription ''purchaseToken''),
                  (''productId'', opt_prop subscription ''subscriptionId''),
                  (''expiresDate'', expiresDate),
                  (''status'', opt_prop subscription ''notificationType''),
                  (''transactionId'', opt_prop subscription ''purchaseToken''),
                  (''purchaseToken'', opt_prop subscription ''purchaseToken''),
                  (''receipt'', opt_prop subscription ''purchaseToken'')])))
         else Inr (JObj []))
      else Inr (JObj []))"

definition extractSubscriptionDetails :: "runtime \<Rightarrow> json \<Rightarrow> string \<Rightarrow> json" where
  "extractSubscriptionDetails rt payload provider =
     (case extractSubscriptionDetails_try rt payload provider of
        Inl e \<Rightarrow> JObj []
      | Inr details \<Rightarrow> details)"

section \<open>The store\<close>

text \<open>
  The tables are the ones the migration script declares. \<open>subscriptions\<close> has a
  generated primary key \<open>id\<close> and a plain index on \<open>user_id\<close>, so it may hold several
  rows of one user; a trigger sets \<open>updated_at\<close> to the store's clock before every
  update of a row. \<open>subscription_events\<close> is the log. A table is the list of its rows
  in the order they were inserted. The \<open>id\<close> of a row is generated by the store and
  named in no query of the service, so a row is modelled without it; it has the
  columns the service names in the queries modelled here. Identity columns hold text,
  \<open>None\<close> for SQL's NULL. Times are milliseconds since the epoch.
\<close>

record subscription_row =
  user_id :: "string option"
  plan :: "string option"
  product_id :: "string option"
  transaction_id :: "string option"
  expiry_date :: "int option"
  trial_end_date :: "int option"
  is_lifetime :: "bool option"
  is_active :: "bool option"
  refunded :: "bool option"
  refund_date :: "int option"
  updated_at :: "int option"

record subscription_event =
  ev_user_id :: "string option"
  event_type :: string
  ev_product_id :: "string option"
  ev_transaction_id :: "string option"
  created_at :: int
  metadata :: json

record db =
  subscriptions :: "subscription_row list"
  subscription_events :: "subscription_event list"

text \<open>
  What a call of the client can do besides its work: answer \<open>{error}\<close>, or reject
  (throw). A call that fails either way leaves the store as it was. A statement the
  store refuses (a constraint, a column it does not have) answers \<open>{error}\<close>.
\<close>

datatype db_fault = NoFault | ReportsError | Rejects

text \<open>
  The identity columns and their types. The script declares \<open>user_id\<close> a UUID in both
  tables and the log's \<open>product_id\<close> and \<open>transaction_id\<close> VARCHAR(255); it declares
  no \<open>product_id\<close> and no \<open>transaction_id\<close> for \<open>subscriptions\<close>. What a type does
  with a text is the store's, and a parameter here: \<open>column_in c t\<close> is what the column
  \<open>c\<close> keeps of the text \<open>t\<close>, in the form the store compares (the canonical form of
  a UUID, the text itself in a text column), and \<open>None\<close> when the type refuses \<open>t\<close>,
  as a column that the table does not have refuses every text; \<open>composite_text v\<close>
  is the text the store takes from an array or object \<open>v\<close> that is sent into such
  a column.
\<close>

datatype column =
    SubscriptionUser
  | SubscriptionProduct
  | SubscriptionTransaction
  | EventUser
  | EventProduct
  | EventTransaction

record store_types =
  column_in :: "column \<Rightarrow> string \<Rightarrow> string option"
  composite_text :: "json \<Rightarrow> string"

text \<open>
  An \<open>.eq(column, v)\<close> filter: the client writes \<open>eq.\<close> and \<open>String(v)\<close> into the
  query, and the store compares the column with that text, read by the column's type.
  \<open>None\<close> when the type refuses the text; the query then answers \<open>{error}\<close>. A NULL
  cell equals nothing.
\<close>

definition eq_filter :: "store_types \<Rightarrow> column \<Rightarrow> json \<Rightarrow> string option" where
  "eq_filter st c v = column_in st c (js_string v)"

text \<open>
  A value written into an identity column: the request is JSON, so a property whose
  value is \<open>undefined\<close> is left out of it and the column is NULL, as for \<open>null\<close>; a
  string is read by the column's type, and so is the text of a number or a boolean.
  \<open>None\<close> when the type refuses the text; \<open>Some None\<close> is NULL.
\<close>

fun cell_written :: "store_types \<Rightarrow> column \<Rightarrow> json \<Rightarrow> string option option" where
  "cell_written st c JUndefined = Some None"
| "cell_written st c JNull = Some None"
| "cell_written st c (JStr s) = map_option Some (column_in st c s)"
| "cell_written st c (JBool b) = map_option Some (column_in st c (js_string (JBool b)))"
| "cell_written st c (JNum n) = map_option Some (column_in st c (js_string (JNum n)))"
| "cell_written st c (JArr xs) = map_option Some (column_in st c (composite_text st (JArr xs)))"
| "cell_written st c (JObj kvs) = map_option Some (column_in st c (composite_text st (JObj kvs)))"

text \<open>The trigger \<open>update_subscriptions_updated_at\<close>, before the update of a row.\<close>

definition before_update :: "int \<Rightarrow> subscription_row \<Rightarrow> subscription_row" where
  "before_update db_now r = r\<lparr>updated_at := Some db_now\<rparr>"

section \<open>subscription.service.ts\<close>

text \<open>\<open>n.a || n.b\<close>; the second property is read only when the first is falsy.\<close>

definition read_either :: "json \<Rightarrow> string \<Rightarrow> string \<Rightarrow> js_error + json" where
  "read_either n a b =
     (case get_prop n a of
        Inl e \<Rightarrow> Inl e
      | Inr x \<Rightarrow> if truthy x then Inr x else get_prop n b)"

subsection \<open>handleSubscriptionPurchased\<close>

text \<open>
  The row the upsert sends: the five columns of the request, the others at their
  defaults (\<open>refunded\<close> is FALSE). \<open>None\<close> when a column refuses its value.
\<close>

definition purchase_row ::
  "store_types \<Rightarrow> json \<Rightarrow> json \<Rightarrow> json \<Rightarrow> int \<Rightarrow> subscription_row option" where
  "purchase_row st userId productId transactionId now =
     (case cell_written st SubscriptionUser userId of
        None \<Rightarrow> None
      | Some u \<Rightarrow>
     (case cell_written st SubscriptionProduct productId of
        None \<Rightarrow> None
      | Some p \<Rightarrow>
     (case cell_written st SubscriptionTransaction transactionId of
        None \<Rightarrow> None
      | Some t \<Rightarrow>
          Some \<lparr>user_id = u, plan = None, product_id = p, transaction_id = t,
                expiry_date = None, trial_end_date = None, is_lifetime = None,
                is_active = Some True, refunded = Some False, refund_date = None,
                updated_at = Some now\<rparr>)))"

text \<open>
  The upsert. It names no \<open>onConflict\<close>, so the store merges on the primary key
  \<open>id\<close>; the request carries no \<open>id\<close>, the store generates a new one, and the row is
  inserted beside the rows that are there. A refused request changes nothing.
\<close>

definition upsert_purchase :: "store_types \<Rightarrow> json \<Rightarrow> json \<Rightarrow> json \<Rightarrow> int \<Rightarrow> db \<Rightarrow> db" where
  "upsert_purchase st userId productId transactionId now d =
     (case purchase_row st userId productId transactionId now of
        None \<Rightarrow> d
      | Some r \<Rightarrow> d\<lparr>subscriptions := subscriptions d @ [r]\<rparr>)"

text \<open>
  The handler returns nothing and catches what its body throws; the model returns the
  store it leaves. \<open>fault\<close> is what the upsert does besides its work, \<open>now\<close> the clock
  at \<open>new Date()\<close>. The result of the upsert is not looked at.
\<close>

definition handleSubscriptionPurchased ::
  "store_types \<Rightarrow> json \<Rightarrow> db_fault \<Rightarrow> int \<Rightarrow> db \<Rightarrow> db" where
  "handleSubscriptionPurchased st notification fault now d =
     (case read_either notification ''userId'' ''user_id'' of
        Inl e \<Rightarrow> d
      | Inr userId \<Rightarrow>
     (case read_either notification ''productId'' ''product_id'' of
        Inl e \<Rightarrow> d
      | Inr productId \<Rightarrow>
     (case read_either notification ''transactionId'' ''transaction_id'' of
        Inl e \<Rightarrow> d
      | Inr transactionId \<Rightarrow>
          if falsy userId \<or> falsy productId then d
          else (case fault of
                  NoFault \<Rightarrow> upsert_purchase st userId productId transactionId now d
                | ReportsError \<Rightarrow> d
                | Rejects \<Rightarrow> d))))"

subsection \<open>handleSubscriptionExpired\<close>

text \<open>
  The update, filtered by \<open>user_id\<close> and \<open>product_id\<close>: every row that passes both
  filters is written and goes through the trigger, which puts the store's clock
  \<open>db_now\<close> over the \<open>updated_at\<close> that was sent. A refused filter changes nothing.
\<close>

definition update_expired ::
  "store_types \<Rightarrow> json \<Rightarrow> json \<Rightarrow> int \<Rightarrow> int \<Rightarrow> db \<Rightarrow> db" where
  "update_expired st userId productId now db_now d =
     (case eq_filter st SubscriptionUser userId of
        None \<Rightarrow> d
      | Some ut \<Rightarrow>
     (case eq_filter st SubscriptionProduct productId of
        None \<Rightarrow> d
      | Some pt \<Rightarrow>
          d\<lparr>subscriptions :=
              map (\<lambda>r. if user_id r = Some ut \<and> product_id r = Some pt
                       then before_update db_now
                              (r\<lparr>is_active := Some False, updated_at := Some now\<rparr>)
                       else r)
                  (subscriptions d)\<rparr>))"

definition handleSubscriptionExpired ::
  "store_types \<Rightarrow> json \<Rightarrow> db_fault \<Rightarrow> int \<Rightarrow> int \<Rightarrow> db \<Rightarrow> db" where
  "handleSubscriptionExpired st notification fault now db_now d =
     (case read_either notification ''userId'' ''user_id'' of
        Inl e \<Rightarrow> d
      | Inr userId \<Rightarrow>
     (case read_either notification ''productId'' ''product_id'' of
        Inl e \<Rightarrow> d
      | Inr productId \<Rightarrow>
          if falsy userId then d
          else (case fault of
                  NoFault \<Rightarrow> update_expired st userId productId now db_now d
                | ReportsError \<Rightarrow> d
                | Rejects \<Rightarrow> d)))"

subsection \<open>handleSubscriptionRefunded\<close>

text \<open>
  The second filter of the update: \<open>transaction_id\<close> when the notification has an
  original transaction id, \<open>product_id\<close> otherwise, compared with
  \<open>originalTransactionId || productId\<close>.
\<close>

definition refund_filter :: "store_types \<Rightarrow> json \<Rightarrow> json \<Rightarrow> string option" where
  "refund_filter st originalTransactionId productId =
     (if truthy originalTransactionId
      then eq_filter st SubscriptionTransaction (js_or originalTransactionId productId)
      else eq_filter st SubscriptionProduct (js_or originalTransactionId productId))"

definition refund_cell :: "json \<Rightarrow> subscription_row \<Rightarrow> string option" where
  "refund_cell originalTransactionId r =
     (if truthy originalTransactionId then transaction_id r else product_id r)"

text \<open>
  The update: every row that passes both filters is written and goes through the
  trigger. \<open>None\<close> when a filter is refused: the update then answers \<open>{error}\<close>. The
  times are the clock at the \<open>new Date()\<close> of the two columns, and the store's.
\<close>

definition update_refunded ::
  "store_types \<Rightarrow> json \<Rightarrow> json \<Rightarrow> json \<Rightarrow> int \<Rightarrow> int \<Rightarrow> int \<Rightarrow> db \<Rightarrow> db option" where
  "update_refunded st userId originalTransactionId productId t_refund t_updated db_now d =
     (case eq_filter st SubscriptionUser userId of
        None \<Rightarrow> None
      | Some ut \<Rightarrow>
     (case refund_filter st originalTransactionId productId of
        None \<Rightarrow> None
      | Some vt \<Rightarrow>
          Some (d\<lparr>subscriptions :=
              map (\<lambda>r. if user_id r = Some ut \<and> refund_cell originalTransactionId r = Some vt
                       then before_update db_now
                              (r\<lparr>is_active := Some False, refunded := Some True,
                                refund_date := Some t_refund, updated_at := Some t_updated\<rparr>)
                       else r)
                  (subscriptions d)\<rparr>)))"

text \<open>
  The record of the refund. The notification is sent as JSON into the \<open>metadata\<close>
  column. \<open>None\<close> when a column refuses its value.
\<close>

definition refund_event ::
  "store_types \<Rightarrow> json \<Rightarrow> json \<Rightarrow> json \<Rightarrow> int \<Rightarrow> json \<Rightarrow> subscription_event option" where
  "refund_event st userId productId originalTransactionId t_created notification =
     (case cell_written st EventUser userId of
        None \<Rightarrow> None
      | Some u \<Rightarrow>
     (case cell_written st EventProduct productId of
        None \<Rightarrow> None
      | Some p \<Rightarrow>
     (case cell_written st EventTransaction originalTransactionId of
        None \<Rightarrow> None
      | Some t \<Rightarrow>
          Some \<lparr>ev_user_id = u, event_type = ''refund'', ev_product_id = p,
                ev_transaction_id = t, created_at = t_created,
                metadata = json_sent notification\<rparr>)))"

text \<open>The insert: the record is appended to the log; a refused insert changes nothing.\<close>

definition insert_event :: "subscription_event option \<Rightarrow> db \<Rightarrow> db" where
  "insert_event ev d =
     (case ev of
        None \<Rightarrow> d
      | Some e \<Rightarrow> d\<lparr>subscription_events := subscription_events d @ [e]\<rparr>)"

text \<open>
  \<open>f_update\<close> and \<open>f_insert\<close> are the faults of the two calls. An update that
  reports an error ends the handler; the result of the insert is not looked at.
\<close>

definition handleSubscriptionRefunded ::
  "store_types \<Rightarrow> json \<Rightarrow> db_fault \<Rightarrow> db_fault \<Rightarrow> int \<Rightarrow> int \<Rightarrow> int \<Rightarrow> int \<Rightarrow> db \<Rightarrow> db" where
  "handleSubscriptionRefunded st notification f_update f_insert t_refund t_updated t_created
       db_now d =
     (case read_either notification ''userId'' ''user_id'' of
        Inl e \<Rightarrow> d
      | Inr userId \<Rightarrow>
     (case read_either notification ''productId'' ''product_id'' of
        Inl e \<Rightarrow> d
      | Inr productId \<Rightarrow>
     (case read_either notification ''originalTransactionId'' ''original_transaction_id'' of
        Inl e \<Rightarrow> d
      | Inr originalTransactionId \<Rightarrow>
          if falsy userId then d
          else (case f_update of
                  Rejects \<Rightarrow> d
                | ReportsError \<Rightarrow> d
                | NoFault \<Rightarrow>
                    (case update_refunded st userId originalTransactionId productId
                            t_refund t_updated db_now d of
                       None \<Rightarrow> d
                     | Some d1 \<Rightarrow>
                         (case f_insert of
                            NoFault \<Rightarrow>
                              insert_event
                                (refund_event st userId productId originalTransactionId
                                   t_created notification) d1
                          | ReportsError \<Rightarrow> d1
                          | Rejects \<Rightarrow> d1))))))"

subsection \<open>getSubscriptionStatus\<close>

record SubscriptionStatus =
  isActive :: bool
  status_plan :: "string option"
  expiryDate :: "int option"
  isLifetime :: bool
  isTrialActive :: bool
  trialEndDate :: "int option"

text \<open>
  The \<open>{data, error}\<close> a read answers. The client is not code of this repository;
  its \<open>.single()\<close> is modelled as its documentation has it: it answers the row when
  the filter selects exactly one, and an error, with no data, when it selects none or
  several. A refused filter answers an error. A read that rejects throws.
\<close>

record read_result =
  data :: "subscription_row option"
  error :: "string option"

definition rows_of_user :: "string \<Rightarrow> db \<Rightarrow> subscription_row list" where
  "rows_of_user ut d = filter (\<lambda>r. user_id r = Some ut) (subscriptions d)"

definition single_row :: "subscription_row list \<Rightarrow> read_result" where
  "single_row rs =
     (case rs of
        [] \<Rightarrow> \<lparr>data = None, error = Some ''PGRST116''\<rparr>
      | [r] \<Rightarrow> \<lparr>data = Some r, error = None\<rparr>
      | r # r' # rs' \<Rightarrow> \<lparr>data = None, error = Some ''PGRST116''\<rparr>)"

definition select_single ::
  "store_types \<Rightarrow> db \<Rightarrow> string \<Rightarrow> db_fault \<Rightarrow> js_error + read_result" where
  "select_single st d userId fault =
     (case fault of
        Rejects \<Rightarrow> Inl Rejected
      | ReportsError \<Rightarrow> Inr \<lparr>data = None, error = Some ''read failed''\<rparr>
      | NoFault \<Rightarrow>
          (case eq_filter st SubscriptionUser (JStr userId) of
             None \<Rightarrow> Inr \<lparr>data = None, error = Some ''22P02''\<rparr>
           | Some ut \<Rightarrow> Inr (single_row (rows_of_user ut d))))"

definition default_status :: SubscriptionStatus where
  "default_status =
     \<lparr>isActive = False, status_plan = None, expiryDate = None, isLifetime = False,
      isTrialActive = False, trialEndDate = None\<rparr>"

fun later :: "int option \<Rightarrow> int \<Rightarrow> bool" where
  "later None now = False"
| "later (Some t) now = (t > now)"

definition status_of_row :: "subscription_row \<Rightarrow> int \<Rightarrow> SubscriptionStatus" where
  "status_of_row r now =
     \<lparr>isActive = (is_lifetime r = Some True \<or> later (expiry_date r) now),
      status_plan = plan r,
      expiryDate = expiry_date r,
      isLifetime = (is_lifetime r = Some True),
      isTrialActive = later (trial_end_date r) now,
      trialEndDate = trial_end_date r\<rparr>"

text \<open>What the function does with the answer of the read.\<close>

definition status_of_read :: "read_result \<Rightarrow> int \<Rightarrow> js_error + SubscriptionStatus" where
  "status_of_read res now =
     (case error res of
        Some e \<Rightarrow> Inl (ApiError 500 ''Failed to fetch subscription status'')
      | None \<Rightarrow>
          (case data res of
             None \<Rightarrow> Inr default_status
           | Some r \<Rightarrow> Inr (status_of_row r now)))"

text \<open>
  The function: an ApiError thrown in the \<open>try\<close> block is thrown on, anything else is
  thrown as \<open>ApiError(500, 'Failed to get subscription status')\<close>.
\<close>

fun rethrow :: "js_error \<Rightarrow> js_error" where
  "rethrow (ApiError c m) = ApiError c m"
| "rethrow e = ApiError 500 ''Failed to get subscription status''"

definition getSubscriptionStatus ::
  "store_types \<Rightarrow> db \<Rightarrow> string \<Rightarrow> db_fault \<Rightarrow> int \<Rightarrow> js_error + SubscriptionStatus" where
  "getSubscriptionStatus st d userId fault now =
     (case select_single st d userId fault of
        Inl e \<Rightarrow> Inl (rethrow e)
      | Inr res \<Rightarrow>
          (case status_of_read res now of
             Inl e \<Rightarrow> Inl (rethrow e)
           | Inr st' \<Rightarrow> Inr st'))"

section \<open>subscription.controller.ts\<close>

text \<open>
  A request as the handler reads it: \<open>req.rawBody\<close> (set by the raw-body middleware,
  \<open>None\<close> when it did not run), \<open>req.body\<close> and the headers. The environment holds
  the two secrets.
\<close>

record request =
  rawBody :: "string option"
  body :: json
  headers :: "string \<rightharpoonup> string"

record environment =
  APPLE_WEBHOOK_SECRET :: "string option"
  GOOGLE_WEBHOOK_SECRET :: "string option"

text \<open>What the handler does with \<open>res\<close> and \<open>next\<close>.\<close>

datatype outcome =
    Responded nat json
  | Next js_error

fun present :: "string option \<Rightarrow> bool" where
  "present None = False"
| "present (Some s) = (s \<noteq> [])"

text \<open>\<open>body.a && body.b && body.c\<close>, each property read only when the one before is truthy.\<close>

definition all_three :: "json \<Rightarrow> string \<Rightarrow> string \<Rightarrow> string \<Rightarrow> js_error + bool" where
  "all_three b k1 k2 k3 =
     (case get_prop b k1 of
        Inl e \<Rightarrow> Inl e
      | Inr x \<Rightarrow>
          if truthy x then
            (case get_prop b k2 of
               Inl e \<Rightarrow> Inl e
             | Inr y \<Rightarrow>
                 if truthy y then
                   (case get_prop b k3 of Inl e \<Rightarrow> Inl e | Inr z \<Rightarrow> Inr (truthy z))
                 else Inr False)
          else Inr False)"

text \<open>\<open>body.a || body.b\<close> as a condition.\<close>

definition any_of_two :: "json \<Rightarrow> string \<Rightarrow> string \<Rightarrow> js_error + bool" where
  "any_of_two b k1 k2 =
     (case get_prop b k1 of
        Inl e \<Rightarrow> Inl e
      | Inr x \<Rightarrow>
          if truthy x then Inr True
          else (case get_prop b k2 of Inl e \<Rightarrow> Inl e | Inr y \<Rightarrow> Inr (truthy y)))"

definition determineProvider :: "(string \<rightharpoonup> string) \<Rightarrow> json \<Rightarrow> js_error + string option" where
  "determineProvider hs b =
     (case (if present (hs ''x-apple-verification-id'') then Inr True
            else all_three b ''notificationType'' ''data'' ''signedPayload'') of
        Inl e \<Rightarrow> Inl e
      | Inr apple \<Rightarrow>
          if apple then Inr (Some ''apple'')
          else
            (case (if present (hs ''x-goog-signature'') then Inr True
                   else any_of_two b ''subscriptionNotification'' ''oneTimeProductNotification'') of
               Inl e \<Rightarrow> Inl e
             | Inr google \<Rightarrow> if google then Inr (Some ''google'') else Inr None))"

definition getWebhookSecret :: "environment \<Rightarrow> string \<Rightarrow> string" where
  "getWebhookSecret env provider =
     (if provider = ''apple'' then
        (if present (APPLE_WEBHOOK_SECRET env) then text_of (APPLE_WEBHOOK_SECRET env) else [])
      else if provider = ''google'' then
        (if present (GOOGLE_WEBHOOK_SECRET env) then text_of (GOOGLE_WEBHOOK_SECRET env) else [])
      else [])"

definition getSignatureFromHeaders :: "(string \<rightharpoonup> string) \<Rightarrow> string \<Rightarrow> string" where
  "getSignatureFromHeaders hs provider =
     (if provider = ''apple'' then
        (if present (hs ''x-apple-signature'') then text_of (hs ''x-apple-signature'') else [])
      else if provider = ''google'' then
        (if present (hs ''x-goog-signature'') then text_of (hs ''x-goog-signature'') else [])
      else [])"

text \<open>\<open>{...body, provider, ...subscriptionDetails}\<close>: the later entries override.\<close>

definition notification_of :: "json \<Rightarrow> string \<Rightarrow> json \<Rightarrow> json" where
  "notification_of b provider details =
     JObj (own_entries details @ [(''provider'', JStr provider)] @ own_entries b)"

definition error_body :: "string \<Rightarrow> json" where
  "error_body m = JObj [(''status'', JStr ''error''), (''message'', JStr m)]"

definition ok_body :: json where
  "ok_body = JObj [(''status'', JStr ''ok'')]"

text \<open>
  The faults and the clock readings of the store calls a handler may make, and the
  store's own clock.
\<close>

record effects =
  fault1 :: db_fault
  fault2 :: db_fault
  time1 :: int
  time2 :: int
  time3 :: int
  db_time :: int

text \<open>The \<open>switch\<close> on the event type.\<close>

definition dispatch :: "store_types \<Rightarrow> string \<Rightarrow> json \<Rightarrow> effects \<Rightarrow> db \<Rightarrow> db" where
  "dispatch st eventType notification fx d =
     (if eventType = ''INITIAL_BUY'' \<or> eventType = ''DID_RENEW'' \<or> eventType = ''RENEWAL''
         \<or> eventType = ''INTERACTIVE_RENEWAL'' \<or> eventType = ''SUBSCRIPTION_PURCHASED''
         \<or> eventType = ''SUBSCRIPTION_RENEWED''
      then handleSubscriptionPurchased st notification (fault1 fx) (time1 fx) d
      else if eventType = ''EXPIRED'' \<or> eventType = ''DID_FAIL_TO_RENEW''
         \<or> eventType = ''GRACE_PERIOD'' \<or> eventType = ''SUBSCRIPTION_EXPIRED''
         \<or> eventType = ''SUBSCRIPTION_CANCELED''
      then handleSubscriptionExpired st notification (fault1 fx) (time1 fx) (db_time fx) d
      else if eventType = ''REFUND'' \<or> eventType = ''REVOKE''
      then handleSubscriptionRefunded st notification (fault1 fx) (fault2 fx)
             (time1 fx) (time2 fx) (time3 fx) (db_time fx) d
      else d)"

text \<open>
  The body of the \<open>try\<close> block: the response and the store it leaves, or what it
  throws. Everything that can throw comes before the first store call.
\<close>

definition handleWebhook_try ::
  "runtime \<Rightarrow> environment \<Rightarrow> store_types \<Rightarrow> effects \<Rightarrow> request \<Rightarrow> db
   \<Rightarrow> js_error + (outcome \<times> db)" where
  "handleWebhook_try rt env st fx req d =
     (let raw = (if present (rawBody req) then rawBody req else json_stringify rt (body req)) in
      case determineProvider (headers req) (body req) of
        Inl e \<Rightarrow> Inl e
      | Inr None \<Rightarrow> Inr (Responded 200 (error_body ''Unknown provider''), d)
      | Inr (Some provider) \<Rightarrow>
          (let webhookSecret = getWebhookSecret env provider in
           if webhookSecret = [] then Inr (Responded 200 (error_body ''Configuration error''), d)
           else
             (let signature = getSignatureFromHeaders (headers req) provider in
              if signature = [] then Inr (Responded 200 (error_body ''Missing signature''), d)
              else
                (case verifyWebhookSignature rt raw (Some signature) (Some webhookSecret) of
                   Inl e \<Rightarrow> Inl e
                 | Inr isValid \<Rightarrow>
                     if isValid then
                       (let eventType = parseWebhookEventType (body req) provider;
                            subscriptionDetails = extractSubscriptionDetails rt (body req) provider
                        in Inr (Responded 200 ok_body,
                                dispatch st eventType
                                  (notification_of (body req) provider subscriptionDetails) fx d))
                     else Inr (Responded 200 (error_body ''Invalid signature''), d)))))"

text \<open>The handler: whatever the \<open>try\<close> block throws is answered with status 200.\<close>

definition handleWebhook ::
  "runtime \<Rightarrow> environment \<Rightarrow> store_types \<Rightarrow> effects \<Rightarrow> request \<Rightarrow> db \<Rightarrow> outcome \<times> db" where
  "handleWebhook rt env st fx req d =
     (case handleWebhook_try rt env st fx req d of
        Inl e \<Rightarrow> (Responded 200 (error_body ''Error processing webhook''), d)
      | Inr result \<Rightarrow> result)"

section \<open>app.ts and the middlewares\<close>

subsection \<open>captureRawBody\<close>

text \<open>\<open>s.includes(w)\<close>.\<close>

fun js_includes :: "string \<Rightarrow> string \<Rightarrow> bool" where
  "js_includes [] w = (w = [])"
| "js_includes (c # s) w = (take (length w) (c # s) = w \<or> js_includes s w)"

text \<open>
  The middleware lets a request pass untouched unless its path has \<open>/webhook\<close> in it
  and its content type has \<open>application/json\<close>; it then reads the stream of the
  request, which ends with the chunks of the body or with an error, sets \<open>rawBody\<close>
  to the chunks put together, and hands an error of the stream to \<open>next\<close>.
\<close>

definition json_content :: "(string \<rightharpoonup> string) \<Rightarrow> bool" where
  "json_content hs =
     (case hs ''content-type'' of
        None \<Rightarrow> False
      | Some t \<Rightarrow> js_includes t ''application/json'')"

definition captureRawBody ::
  "string \<Rightarrow> (string \<rightharpoonup> string) \<Rightarrow> js_error + string list \<Rightarrow> js_error + string option" where
  "captureRawBody path hs stream =
     (if js_includes path ''/webhook'' \<and> json_content hs then
        (case stream of
           Inl e \<Rightarrow> Inl e
         | Inr chunks \<Rightarrow> Inr (Some (concat chunks)))
      else Inr None)"

subsection \<open>errorHandler\<close>

definition errorHandler :: "js_error \<Rightarrow> outcome" where
  "errorHandler err =
     (case err of
        ApiError statusCode message \<Rightarrow>
          Responded statusCode
            (JObj [(''status'', JStr ''error''), (''message'', JStr message),
                   (''isOperational'', JBool True)])
      | ZodError errors \<Rightarrow>
          Responded 400
            (JObj [(''status'', JStr ''error''), (''message'', JStr ''Validation error''),
                   (''errors'', errors)])
      | TypeError \<Rightarrow> Responded 500 (error_body ''Internal server error'')
      | RangeError \<Rightarrow> Responded 500 (error_body ''Internal server error'')
      | SyntaxError \<Rightarrow> Responded 500 (error_body ''Internal server error'')
      | Rejected \<Rightarrow> Responded 500 (error_body ''Internal server error''))"

subsection \<open>The way of a webhook through the application\<close>

text \<open>
  What comes to the application with a webhook: the path and the headers of the
  request, the stream of its body, and what the two library middlewares in front of
  the routes do with it. \<open>parsed\<close> is what \<open>express.json()\<close> makes of the body: the
  \<open>req.body\<close> it sets, or the error it hands to \<open>next\<close> (a SyntaxError for a body
  that is not JSON). \<open>limited\<close> is the response of the rate limiter, when it answers
  the request itself.
\<close>

record delivery =
  request_path :: string
  sent_headers :: "string \<rightharpoonup> string"
  stream :: "js_error + string list"
  parsed :: "js_error + json"
  limited :: "outcome option"

text \<open>
  The middlewares in the order \<open>app.ts\<close> applies them, for a path the subscription
  router gives to \<open>handleWebhook\<close>: \<open>captureRawBody\<close>, \<open>express.json()\<close>, the rate
  limiter, the handler; an error handed to \<open>next\<close> on the way goes to
  \<open>errorHandler\<close>.
\<close>

definition webhook_endpoint ::
  "runtime \<Rightarrow> environment \<Rightarrow> store_types \<Rightarrow> effects \<Rightarrow> delivery \<Rightarrow> db \<Rightarrow> outcome \<times> db" where
  "webhook_endpoint rt env st fx dl d =
     (case captureRawBody (request_path dl) (sent_headers dl) (stream dl) of
        Inl e \<Rightarrow> (errorHandler e, d)
      | Inr raw \<Rightarrow>
          (case parsed dl of
             Inl e \<Rightarrow> (errorHandler e, d)
           | Inr b \<Rightarrow>
               (case limited dl of
                  Some answer \<Rightarrow> (answer, d)
                | None \<Rightarrow>
                    (case handleWebhook rt env st fx
                            \<lparr>rawBody = raw, body = b, headers = sent_headers dl\<rparr> d of
                       (Responded code answer, d') \<Rightarrow> (Responded code answer, d')
                     | (Next e, d') \<Rightarrow> (errorHandler e, d')))))"

section \<open>Sample inputs\<close>

text \<open>The store before anything was written.\<close>

definition empty_db :: db where
  "empty_db = \<lparr>subscriptions = [], subscription_events = []\<rparr>"

text \<open>
  A verified Apple webhook: the parsed body, the raw body it was parsed from, the same
  raw body with one bit flipped (\<open>"u1"\<close> to \<open>"u0"\<close>), the secret \<open>s3cret\<close> and the
  header that carries the signature.
\<close>

definition initial_buy_body :: json where
  "initial_buy_body =
     JObj [(''notificationType'', JStr ''INITIAL_BUY''),
           (''data'', JObj [(''transactionInfo'',
              JObj [(''originalTransactionId'', JStr ''T1''),
                    (''productId'', JStr ''monthly_subscription''),
                    (''transactionId'', JStr ''T1'')])]),
           (''signedPayload'', JStr ''x''),
           (''userId'', JStr ''u1'')]"

definition initial_buy_raw :: string where
  \<open>initial_buy_raw = ''{"notificationType":"INITIAL_BUY","data":{"transactionInfo":{"originalTransactionId":"T1","productId":"monthly_subscription","transactionId":"T1"}},"signedPayload":"x","userId":"u1"}''\<close>

definition initial_buy_raw_flipped :: string where
  \<open>initial_buy_raw_flipped = ''{"notificationType":"INITIAL_BUY","data":{"transactionInfo":{"originalTransactionId":"T1","productId":"monthly_subscription","transactionId":"T1"}},"signedPayload":"x","userId":"u0"}''\<close>

text \<open>
  The HMAC-SHA256 digests of the sample inputs, hex and base64, as Node computes them,
  by key and message.
\<close>

definition sample_digests :: "((string \<times> string) \<times> (string \<times> string)) list" where
  "sample_digests =
     [((''s3cret'', initial_buy_raw),
       (''6cfedf7d592aae5dca824ff02f7813e4ce3e308ea5d0e90089344b03cc5f69cc'',
        ''bP7ffVkqrl3Kgk/wL3gT5M4+MI6l0OkAiTRLA8xfacw='')),
      ((''s3cret'', initial_buy_raw_flipped),
       (''f14b5e36bee45542115de22159a6bff64b96bfcfab676973d225270560daa83a'',
        ''8UteNr7kVUIRXeIhWaa/9kuWv8+rZ2lz0iUnBWDaqDo='')),
      ((''test-apple-secret'', initial_buy_raw),
       (''f88ebc42db050ed908fef8e06fed681e73c079a9eeb21685afce4dbf5f9054a9'',
        ''+I68QtsFDtkI/vjgb+1oHnPAeanushaFr85Nv1+QVKk='')),
      ((''apple'', initial_buy_raw),
       (''1a1e4ee227791d7fcc643e876ed701a754a4f609164da91e40c0b3677fd333b0'',
        ''Gh5O4id5HX/MZD6HbtcBp1Sk9gkWTakeQMCzZ3/TM7A=''))]"

text \<open>
  The libraries at the sample inputs: the digests above (the empty string for any other
  key and message), the JSON text of the sample body, no token that verifies and no
  date that converts. The sample runs read nothing but the digests.
\<close>

definition sample_runtime :: runtime where
  "sample_runtime =
     \<lparr>hmac_sha256_hex = (\<lambda>key msg. case map_of sample_digests (key, msg) of
                                       None \<Rightarrow> [] | Some (h, b) \<Rightarrow> h),
      hmac_sha256_base64 = (\<lambda>key msg. case map_of sample_digests (key, msg) of
                                       None \<Rightarrow> [] | Some (h, b) \<Rightarrow> b),
      jwt_verify = (\<lambda>token secret. False),
      json_stringify = (\<lambda>v. if v = initial_buy_body then Some initial_buy_raw else None),
      date_iso_of_millis = (\<lambda>v. Inl RangeError)\<rparr>"

definition sample_env :: environment where
  "sample_env = \<lparr>APPLE_WEBHOOK_SECRET = Some ''s3cret'', GOOGLE_WEBHOOK_SECRET = None\<rparr>"

definition sample_effects :: effects where
  "sample_effects =
     \<lparr>fault1 = NoFault, fault2 = NoFault, time1 = 1000, time2 = 1000, time3 = 1000,
      db_time = 1000\<rparr>"

definition initial_buy_request :: request where
  "initial_buy_request =
     \<lparr>rawBody = Some initial_buy_raw,
      body = initial_buy_body,
      headers = [''x-apple-signature'' \<mapsto>
        ''sha256=6cfedf7d592aae5dca824ff02f7813e4ce3e308ea5d0e90089344b03cc5f69cc'']\<rparr>"

text \<open>The notification the controller would hand to a handler for that request.\<close>

definition initial_buy_notification :: json where
  "initial_buy_notification =
     notification_of initial_buy_body ''apple''
       (extractSubscriptionDetails sample_runtime initial_buy_body ''apple'')"

text \<open>
  A webhook whose body is not JSON: the body parser hands a SyntaxError to \<open>next\<close>.
\<close>

definition malformed_raw :: string where
  \<open>malformed_raw = ''{"notificationType":''\<close>

definition malformed_delivery :: delivery where
  "malformed_delivery =
     \<lparr>request_path = ''/api/v1/subscription/webhook'',
      sent_headers = [''content-type'' \<mapsto> ''application/json'',
                      ''x-apple-signature'' \<mapsto> ''sha256=00''],
      stream = Inr [malformed_raw],
      parsed = Inl SyntaxError,
      limited = None\<rparr>"

text \<open>
  A store whose identity columns keep a text as it is: what a text column does with
  any text, and a UUID column with a UUID in its canonical form, as the two sample
  users are. The samples send no array or object into a column.
\<close>

definition sample_store :: store_types where
  "sample_store =
     \<lparr>column_in = (\<lambda>c t. Some t),
      composite_text = (\<lambda>v. case json_stringify sample_runtime v of
                               None \<Rightarrow> [] | Some t \<Rightarrow> t)\<rparr>"

definition user_1 :: string where
  "user_1 = ''a0eebc99-9c0b-4ef8-bb6d-6bb9bd380a11''"

definition user_2 :: string where
  "user_2 = ''b1ffcd00-1d2c-4ef8-bb6d-6bb9bd380a22''"

text \<open>
  Notifications as a handler reads them, and a table of three active rows: the monthly
  and the yearly product of the first user, the monthly product of the second.
\<close>

definition purchase_notification :: json where
  "purchase_notification =
     JObj [(''userId'', JStr user_1), (''productId'', JStr ''monthly_subscription''),
           (''transactionId'', JStr ''T1'')]"

definition active_row_B :: subscription_row where
  "active_row_B =
     \<lparr>user_id = Some user_1, plan = Some ''monthly_subscription'',
      product_id = Some ''monthly_subscription'', transaction_id = Some ''B'',
      expiry_date = Some 9000, trial_end_date = None, is_lifetime = Some False,
      is_active = Some True, refunded = Some False, refund_date = None,
      updated_at = Some 2000\<rparr>"

definition active_row_C :: subscription_row where
  "active_row_C =
     \<lparr>user_id = Some user_1, plan = Some ''yearly_subscription'',
      product_id = Some ''yearly_subscription'', transaction_id = Some ''C'',
      expiry_date = Some 9000, trial_end_date = None, is_lifetime = Some False,
      is_active = Some True, refunded = Some False, refund_date = None,
      updated_at = Some 2000\<rparr>"

definition active_row_D :: subscription_row where
  "active_row_D =
     \<lparr>user_id = Some user_2, plan = Some ''monthly_subscription'',
      product_id = Some ''monthly_subscription'', transaction_id = Some ''D'',
      expiry_date = Some 9000, trial_end_date = None, is_lifetime = Some False,
      is_active = Some True, refunded = Some False, refund_date = None,
      updated_at = Some 2000\<rparr>"

definition db_B :: db where
  "db_B = \<lparr>subscriptions = [active_row_B, active_row_C, active_row_D],
           subscription_events = []\<rparr>"


definition refund_B_old :: json where
  "refund_B_old =
     JObj [(''userId'', JStr user_1), (''productId'', JStr ''monthly_subscription''),
           (''originalTransactionId'', JStr ''B''), (''occurredAt'', JNum 1000)]"

section \<open>The event normalizer\<close>

text \<open>
  C6, at the inputs where it fails. For an Apple payload, \<open>parseWebhookEventType\<close>
  answers \<open>unknown\<close> for the notification types INITIAL_BUY, INTERACTIVE_RENEWAL,
  EXPIRED, GRACE_PERIOD and REVOKE, which the claim maps to purchased/renewed, expired
  and refunded (and which the controller's \<open>switch\<close> names as handled).
\<close>

theorem parseWebhookEventType_apple_unmapped:
  "parseWebhookEventType (JObj [(''notificationType'', JStr ''INITIAL_BUY'')]) ''apple'' = ''unknown''
   \<and> parseWebhookEventType (JObj [(''notificationType'', JStr ''INTERACTIVE_RENEWAL'')]) ''apple'' = ''unknown''
   \<and> parseWebhookEventType (JObj [(''notificationType'', JStr ''EXPIRED'')]) ''apple'' = ''unknown''
   \<and> parseWebhookEventType (JObj [(''notificationType'', JStr ''GRACE_PERIOD'')]) ''apple'' = ''unknown''
   \<and> parseWebhookEventType (JObj [(''notificationType'', JStr ''REVOKE'')]) ''apple'' = ''unknown''"
  by (simp add: parseWebhookEventType_def parseWebhookEventType_try_def js_or_def)

text \<open>What the function does map, for an Apple payload that is an object.\<close>

lemma parseWebhookEventType_apple_table:
  "parseWebhookEventType (JObj kvs) ''apple'' =
     (if lookup kvs ''notificationType'' = JStr ''CONSUMPTION_REQUEST'' then ''purchased''
      else if lookup kvs ''notificationType'' = JStr ''DID_RENEW'' then ''renewed''
      else if lookup kvs ''notificationType'' = JStr ''DID_FAIL_TO_RENEW'' then ''expired''
      else if lookup kvs ''notificationType'' = JStr ''REFUND'' then ''refunded''
      else ''unknown'')"
  by (auto simp: parseWebhookEventType_def parseWebhookEventType_try_def js_or_def)

text \<open>What the function maps for a Google payload that is an object.\<close>

lemma parseWebhookEventType_google_table:
  "parseWebhookEventType (JObj kvs) ''google'' =
     (if lookup kvs ''messageType'' = JStr ''SUBSCRIPTION_PURCHASED'' then ''purchased''
      else if lookup kvs ''messageType'' = JStr ''SUBSCRIPTION_RENEWED'' then ''renewed''
      else if lookup kvs ''messageType'' = JStr ''SUBSCRIPTION_EXPIRED'' then ''expired''
      else if lookup kvs ''messageType'' = JStr ''SUBSCRIPTION_REVOKED'' then ''refunded''
      else if opt_prop (lookup kvs ''subscriptionNotification'') ''notificationType'' = JNum 1
        then ''purchased''
      else if opt_prop (lookup kvs ''subscriptionNotification'') ''notificationType'' = JNum 2
        then ''renewed''
      else if opt_prop (lookup kvs ''subscriptionNotification'') ''notificationType'' = JNum 3
        then ''expired''
      else if opt_prop (lookup kvs ''subscriptionNotification'') ''notificationType'' = JNum 4
        then ''refunded''
      else ''unknown'')"
  by (auto simp: parseWebhookEventType_def parseWebhookEventType_try_def js_or_def)

section \<open>The signature verifier\<close>

lemma split_on_no_sep: "c \<notin> set s \<Longrightarrow> split_on c s = [s]"
  by (induction s) auto

lemma verify_total: "\<exists>b. verifyWebhookSignature rt payload signature secret = Inr b"
  by (cases "verifyWebhookSignature_try rt payload signature secret")
     (auto simp: verifyWebhookSignature_def)

lemma verify_missing:
  "missing payload \<or> missing signature \<or> missing secret \<Longrightarrow>
   verifyWebhookSignature rt payload signature secret = Inr False"
  by (auto simp: verifyWebhookSignature_def verifyWebhookSignature_try_def)

lemma verify_thrown:
  "verifyWebhookSignature_try rt payload signature secret = Inl e \<Longrightarrow>
   verifyWebhookSignature rt payload signature secret = Inr False"
  by (simp add: verifyWebhookSignature_def)

lemma verify_hex:
  assumes "msg \<noteq> []" "secret \<noteq> []" "secret \<noteq> ''apple''" "secret \<noteq> ''google''"
  shows "verifyWebhookSignature rt (Some msg)
           (Some (''sha256='' @ hmac_sha256_hex rt secret msg)) (Some secret) = Inr True"
  using assms
  by (simp add: verifyWebhookSignature_def verifyWebhookSignature_try_def starts_with_def
      timingSafeEqual_def)

lemma verify_hex_other:
  assumes "msg' \<noteq> []" "secret \<noteq> []" "secret \<noteq> ''apple''" "secret \<noteq> ''google''"
  shows "verifyWebhookSignature rt (Some msg')
           (Some (''sha256='' @ hmac_sha256_hex rt secret msg)) (Some secret)
         = Inr (hmac_sha256_hex rt secret msg' = hmac_sha256_hex rt secret msg)"
  using assms
  by (auto simp: verifyWebhookSignature_def verifyWebhookSignature_try_def starts_with_def
      timingSafeEqual_def)

lemma verify_unknown_format:
  assumes "msg \<noteq> []" "sg \<noteq> []" "secret \<noteq> []"
    "starts_with sg ''sha256='' = False" "length (split_on CHR ''.'' sg) \<noteq> 3"
  shows "verifyWebhookSignature rt (Some msg) (Some sg) (Some secret)
         = Inr (secret = ''apple'' \<and> sg = hmac_sha256_base64 rt ''test-apple-secret'' msg
                \<or> secret = ''google'' \<and> sg = ''valid-jwt-token'')"
  using assms
  by (auto simp: verifyWebhookSignature_def verifyWebhookSignature_try_def)

lemma verify_apple_literal:
  assumes "msg \<noteq> []" "sg \<noteq> []"
  shows "verifyWebhookSignature rt (Some msg) (Some sg) (Some ''apple'')
         = Inr (sg = hmac_sha256_base64 rt ''test-apple-secret'' msg)"
  using assms
  by (simp add: verifyWebhookSignature_def verifyWebhookSignature_try_def)

lemma sample_raw_distinct: "initial_buy_raw_flipped \<noteq> initial_buy_raw"
  by (simp add: initial_buy_raw_def initial_buy_raw_flipped_def)

lemma sample_hex:
  "hmac_sha256_hex sample_runtime ''s3cret'' initial_buy_raw
   = ''6cfedf7d592aae5dca824ff02f7813e4ce3e308ea5d0e90089344b03cc5f69cc''"
  by (simp add: sample_runtime_def sample_digests_def)

lemma sample_hex_flipped:
  "hmac_sha256_hex sample_runtime ''s3cret'' initial_buy_raw_flipped
   = ''f14b5e36bee45542115de22159a6bff64b96bfcfab676973d225270560daa83a''"
  by (simp add: sample_runtime_def sample_digests_def sample_raw_distinct)

lemma sample_base64:
  "hmac_sha256_base64 sample_runtime ''s3cret'' initial_buy_raw
   = ''bP7ffVkqrl3Kgk/wL3gT5M4+MI6l0OkAiTRLA8xfacw=''"
  by (simp add: sample_runtime_def sample_digests_def)

lemma sample_base64_test_key:
  "hmac_sha256_base64 sample_runtime ''test-apple-secret'' initial_buy_raw
   = ''+I68QtsFDtkI/vjgb+1oHnPAeanushaFr85Nv1+QVKk=''"
  by (simp add: sample_runtime_def sample_digests_def)

lemma sample_raw_nonempty: "initial_buy_raw \<noteq> []" "initial_buy_raw_flipped \<noteq> []"
  by (simp_all add: initial_buy_raw_def initial_buy_raw_flipped_def)

text \<open>
  C7, as the code has it. For a non-empty body and a non-empty secret other than the
  words \<open>apple\<close> and \<open>google\<close>: the hex HMAC of the body under the secret, with the
  prefix \<open>sha256=\<close>, verifies; against that signature another non-empty body verifies
  exactly when its hex HMAC under the secret is the same, so a body with a flipped bit
  is rejected unless the two HMACs collide; and a signature without the prefix that
  is not three parts separated by dots, as a base64 HMAC is, is rejected. A base64
  HMAC is accepted only when the secret is the word \<open>apple\<close>, and then the one keyed
  by \<open>test-apple-secret\<close>, not by the secret.
\<close>

theorem verify_hmac_hex_only:
  "(msg \<noteq> [] \<and> secret \<noteq> [] \<and> secret \<noteq> ''apple'' \<and> secret \<noteq> ''google'' \<longrightarrow>
      verifyWebhookSignature rt (Some msg)
        (Some (''sha256='' @ hmac_sha256_hex rt secret msg)) (Some secret) = Inr True
      \<and> (msg' \<noteq> [] \<longrightarrow>
           verifyWebhookSignature rt (Some msg')
             (Some (''sha256='' @ hmac_sha256_hex rt secret msg)) (Some secret)
           = Inr (hmac_sha256_hex rt secret msg' = hmac_sha256_hex rt secret msg))
      \<and> (sg \<noteq> [] \<and> starts_with sg ''sha256='' = False
            \<and> length (split_on CHR ''.'' sg) \<noteq> 3 \<longrightarrow>
           verifyWebhookSignature rt (Some msg) (Some sg) (Some secret) = Inr False))
   \<and> (msg \<noteq> [] \<and> sg \<noteq> [] \<longrightarrow>
        verifyWebhookSignature rt (Some msg) (Some sg) (Some ''apple'')
        = Inr (sg = hmac_sha256_base64 rt ''test-apple-secret'' msg))"
proof (intro conjI impI)
  assume h: "msg \<noteq> [] \<and> secret \<noteq> [] \<and> secret \<noteq> ''apple'' \<and> secret \<noteq> ''google''"
  then show "verifyWebhookSignature rt (Some msg)
        (Some (''sha256='' @ hmac_sha256_hex rt secret msg)) (Some secret) = Inr True"
    by (intro verify_hex) simp_all
  {
    assume "msg' \<noteq> []"
    with h show "verifyWebhookSignature rt (Some msg')
             (Some (''sha256='' @ hmac_sha256_hex rt secret msg)) (Some secret)
           = Inr (hmac_sha256_hex rt secret msg' = hmac_sha256_hex rt secret msg)"
      by (intro verify_hex_other) simp_all
  }
  {
    assume "sg \<noteq> [] \<and> starts_with sg ''sha256='' = False
            \<and> length (split_on CHR ''.'' sg) \<noteq> 3"
    with h verify_unknown_format[of msg sg secret rt]
    show "verifyWebhookSignature rt (Some msg) (Some sg) (Some secret) = Inr False"
      by simp
  }
next
  assume "msg \<noteq> [] \<and> sg \<noteq> []"
  then show "verifyWebhookSignature rt (Some msg) (Some sg) (Some ''apple'')
        = Inr (sg = hmac_sha256_base64 rt ''test-apple-secret'' msg)"
    by (intro verify_apple_literal) simp_all
qed

text \<open>
  C7 as the code has it, at the sample webhook and the secret \<open>s3cret\<close>: the hex signature
  verifies, the body with one bit flipped does not verify against it, the base64 HMAC
  under \<open>s3cret\<close> is rejected, and with the secret \<open>apple\<close> the base64 HMAC under
  \<open>test-apple-secret\<close> is accepted.
\<close>

theorem verify_hmac_witness:
  "verifyWebhookSignature sample_runtime (Some initial_buy_raw)
     (Some (''sha256='' @ hmac_sha256_hex sample_runtime ''s3cret'' initial_buy_raw))
     (Some ''s3cret'') = Inr True
   \<and> verifyWebhookSignature sample_runtime (Some initial_buy_raw_flipped)
       (Some (''sha256='' @ hmac_sha256_hex sample_runtime ''s3cret'' initial_buy_raw))
       (Some ''s3cret'') = Inr False
   \<and> verifyWebhookSignature sample_runtime (Some initial_buy_raw)
       (Some ''bP7ffVkqrl3Kgk/wL3gT5M4+MI6l0OkAiTRLA8xfacw='') (Some ''s3cret'') = Inr False
   \<and> verifyWebhookSignature sample_runtime (Some initial_buy_raw)
       (Some ''+I68QtsFDtkI/vjgb+1oHnPAeanushaFr85Nv1+QVKk='') (Some ''apple'') = Inr True"
proof -
  have fmt: "''bP7ffVkqrl3Kgk/wL3gT5M4+MI6l0OkAiTRLA8xfacw='' \<noteq> []
             \<and> starts_with ''bP7ffVkqrl3Kgk/wL3gT5M4+MI6l0OkAiTRLA8xfacw='' ''sha256='' = False
             \<and> length (split_on CHR ''.'' ''bP7ffVkqrl3Kgk/wL3gT5M4+MI6l0OkAiTRLA8xfacw='') \<noteq> 3"
    by (simp add: starts_with_def split_on_no_sep)
  have ne: "initial_buy_raw \<noteq> [] \<and> ''s3cret'' \<noteq> [] \<and> ''s3cret'' \<noteq> ''apple''
            \<and> ''s3cret'' \<noteq> ''google''"
    by (simp add: sample_raw_nonempty)
  have ne': "initial_buy_raw \<noteq> []
             \<and> ''+I68QtsFDtkI/vjgb+1oHnPAeanushaFr85Nv1+QVKk='' \<noteq> []"
    by (simp add: sample_raw_nonempty)
  note T = verify_hmac_hex_only
             [of initial_buy_raw "''s3cret''" sample_runtime initial_buy_raw_flipped
                 "''bP7ffVkqrl3Kgk/wL3gT5M4+MI6l0OkAiTRLA8xfacw=''"]
  note T' = verify_hmac_hex_only
             [of initial_buy_raw "''s3cret''" sample_runtime initial_buy_raw_flipped
                 "''+I68QtsFDtkI/vjgb+1oHnPAeanushaFr85Nv1+QVKk=''"]
  from T ne have a: "verifyWebhookSignature sample_runtime (Some initial_buy_raw)
     (Some (''sha256='' @ hmac_sha256_hex sample_runtime ''s3cret'' initial_buy_raw))
     (Some ''s3cret'') = Inr True"
    by blast
  from T ne sample_raw_nonempty(2)
  have "verifyWebhookSignature sample_runtime (Some initial_buy_raw_flipped)
       (Some (''sha256='' @ hmac_sha256_hex sample_runtime ''s3cret'' initial_buy_raw))
       (Some ''s3cret'')
     = Inr (hmac_sha256_hex sample_runtime ''s3cret'' initial_buy_raw_flipped
            = hmac_sha256_hex sample_runtime ''s3cret'' initial_buy_raw)"
    by blast
  then have b: "verifyWebhookSignature sample_runtime (Some initial_buy_raw_flipped)
       (Some (''sha256='' @ hmac_sha256_hex sample_runtime ''s3cret'' initial_buy_raw))
       (Some ''s3cret'') = Inr False"
    by (simp only: sample_hex sample_hex_flipped) simp
  from T ne fmt have c: "verifyWebhookSignature sample_runtime (Some initial_buy_raw)
       (Some ''bP7ffVkqrl3Kgk/wL3gT5M4+MI6l0OkAiTRLA8xfacw='') (Some ''s3cret'') = Inr False"
    by blast
  from T' ne'
  have "verifyWebhookSignature sample_runtime (Some initial_buy_raw)
       (Some ''+I68QtsFDtkI/vjgb+1oHnPAeanushaFr85Nv1+QVKk='') (Some ''apple'')
     = Inr (''+I68QtsFDtkI/vjgb+1oHnPAeanushaFr85Nv1+QVKk=''
            = hmac_sha256_base64 sample_runtime ''test-apple-secret'' initial_buy_raw)"
    by blast
  then have d: "verifyWebhookSignature sample_runtime (Some initial_buy_raw)
       (Some ''+I68QtsFDtkI/vjgb+1oHnPAeanushaFr85Nv1+QVKk='') (Some ''apple'') = Inr True"
    by (simp only: sample_base64_test_key) simp
  from a b c d show ?thesis by blast
qed

text \<open>
  C7 as stated fails: the base64 HMAC-SHA256 of the sample body under the secret
  \<open>s3cret\<close> is rejected when the secret is \<open>s3cret\<close>.
\<close>

theorem verify_base64_counterexample:
  "verifyWebhookSignature sample_runtime (Some initial_buy_raw)
     (Some (hmac_sha256_base64 sample_runtime ''s3cret'' initial_buy_raw)) (Some ''s3cret'')
   = Inr False"
  by (simp add: sample_base64)
     (simp add: verifyWebhookSignature_def verifyWebhookSignature_try_def starts_with_def
        split_on_no_sep initial_buy_raw_def)

text \<open>
  C8, as the code has it. The verifier never throws: it answers a boolean for every
  input. A missing (absent or empty) body, signature or secret yields \<open>false\<close>, and so
  does whatever the body of the function throws. A signature of no known format (no
  \<open>sha256=\<close> prefix, not three parts separated by dots) yields \<open>false\<close> with two
  exceptions, both for a secret that is a provider's name: with the secret \<open>apple\<close>
  the base64 HMAC keyed by \<open>test-apple-secret\<close> is accepted, and with the secret
  \<open>google\<close> the word \<open>valid-jwt-token\<close> is.
\<close>

theorem verify_never_throws:
  "(\<exists>b. verifyWebhookSignature rt payload signature secret = Inr b)
   \<and> (missing payload \<or> missing signature \<or> missing secret \<longrightarrow>
        verifyWebhookSignature rt payload signature secret = Inr False)
   \<and> (verifyWebhookSignature_try rt payload signature secret = Inl e \<longrightarrow>
        verifyWebhookSignature rt payload signature secret = Inr False)
   \<and> (msg \<noteq> [] \<and> sg \<noteq> [] \<and> sc \<noteq> [] \<and> starts_with sg ''sha256='' = False
        \<and> length (split_on CHR ''.'' sg) \<noteq> 3 \<longrightarrow>
        verifyWebhookSignature rt (Some msg) (Some sg) (Some sc)
        = Inr (sc = ''apple'' \<and> sg = hmac_sha256_base64 rt ''test-apple-secret'' msg
               \<or> sc = ''google'' \<and> sg = ''valid-jwt-token''))"
  using verify_total[of rt payload signature secret]
  by (simp add: verify_missing verify_thrown verify_unknown_format)

text \<open>
  C8 as the code has it, at sample inputs: no body yields \<open>false\<close>; a \<open>sha256=\<close> signature
  of the wrong length makes the comparison throw, and yields \<open>false\<close>; a signature of
  no known format yields \<open>false\<close> under the secret \<open>s3cret\<close>.
\<close>

theorem verify_never_throws_witness:
  "verifyWebhookSignature sample_runtime None (Some ''sha256=00'') (Some ''s3cret'') = Inr False
   \<and> verifyWebhookSignature_try sample_runtime (Some initial_buy_raw) (Some ''sha256=00'')
       (Some ''s3cret'') = Inl RangeError
   \<and> verifyWebhookSignature sample_runtime (Some initial_buy_raw) (Some ''sha256=00'')
       (Some ''s3cret'') = Inr False
   \<and> verifyWebhookSignature sample_runtime (Some initial_buy_raw) (Some ''not a signature'')
       (Some ''s3cret'') = Inr False"
proof -
  have thrown: "verifyWebhookSignature_try sample_runtime (Some initial_buy_raw)
                  (Some ''sha256=00'') (Some ''s3cret'') = Inl RangeError"
    by (simp add: verifyWebhookSignature_try_def starts_with_def timingSafeEqual_def
        sample_hex sample_raw_nonempty)
  have fmt: "initial_buy_raw \<noteq> [] \<and> ''not a signature'' \<noteq> [] \<and> ''s3cret'' \<noteq> []
             \<and> starts_with ''not a signature'' ''sha256='' = False
             \<and> length (split_on CHR ''.'' ''not a signature'') \<noteq> 3"
    by (simp add: starts_with_def split_on_no_sep sample_raw_nonempty)
  note T = verify_never_throws
             [of sample_runtime None "Some ''sha256=00''" "Some ''s3cret''" RangeError
                 initial_buy_raw "''not a signature''" "''s3cret''"]
  note T' = verify_never_throws
             [of sample_runtime "Some initial_buy_raw" "Some ''sha256=00''" "Some ''s3cret''"
                 RangeError initial_buy_raw "''not a signature''" "''s3cret''"]
  have "missing None" by simp
  with T have a: "verifyWebhookSignature sample_runtime None (Some ''sha256=00'')
                    (Some ''s3cret'') = Inr False"
    by blast
  from T' thrown have b: "verifyWebhookSignature sample_runtime (Some initial_buy_raw)
                    (Some ''sha256=00'') (Some ''s3cret'') = Inr False"
    by blast
  from T fmt
  have "verifyWebhookSignature sample_runtime (Some initial_buy_raw) (Some ''not a signature'')
          (Some ''s3cret'')
        = Inr (''s3cret'' = ''apple'' \<and> ''not a signature''
                  = hmac_sha256_base64 sample_runtime ''test-apple-secret'' initial_buy_raw
               \<or> ''s3cret'' = ''google'' \<and> ''not a signature'' = ''valid-jwt-token'')"
    by blast
  then have c: "verifyWebhookSignature sample_runtime (Some initial_buy_raw)
                  (Some ''not a signature'') (Some ''s3cret'') = Inr False"
    by simp
  from a thrown b c show ?thesis by blast
qed

text \<open>
  C8 as stated fails: under the secret \<open>google\<close> the signature \<open>valid-jwt-token\<close>,
  which is no token at all, is accepted for the sample body.
\<close>

theorem verify_test_token_counterexample:
  "verifyWebhookSignature sample_runtime (Some initial_buy_raw) (Some ''valid-jwt-token'')
     (Some ''google'') = Inr True"
  by (simp add: verifyWebhookSignature_def verifyWebhookSignature_try_def initial_buy_raw_def)

section \<open>The event type never reaches a handler\<close>

lemma parseWebhookEventType_try_range:
  "parseWebhookEventType_try payload provider = Inr t \<Longrightarrow>
   t \<in> {''purchased'', ''renewed'', ''expired'', ''refunded'', ''unknown''}"
  unfolding parseWebhookEventType_try_def Let_def
  by (auto split: sum.splits if_splits)

lemma parseWebhookEventType_range:
  "parseWebhookEventType payload provider
   \<in> {''purchased'', ''renewed'', ''expired'', ''refunded'', ''unknown''}"
proof (cases "parseWebhookEventType_try payload provider")
  case (Inl e)
  then show ?thesis by (simp add: parseWebhookEventType_def)
next
  case (Inr t)
  from parseWebhookEventType_try_range[OF Inr] Inr show ?thesis
    by (simp add: parseWebhookEventType_def)
qed

lemma dispatch_canonical:
  "eventType \<in> {''purchased'', ''renewed'', ''expired'', ''refunded'', ''unknown''} \<Longrightarrow>
   dispatch st eventType n fx d = d"
  by (elim insertE emptyE; simp add: dispatch_def)

lemma dispatch_parsed: "dispatch st (parseWebhookEventType b p) n fx d = d"
  by (rule dispatch_canonical[OF parseWebhookEventType_range])

lemma handleWebhook_try_store:
  "handleWebhook_try rt env st fx req d = Inr (out, d') \<Longrightarrow> d' = d"
  unfolding handleWebhook_try_def
  by (auto simp: Let_def dispatch_parsed split: sum.splits option.splits if_splits)

lemma handleWebhook_try_responses:
  "handleWebhook_try rt env st fx req d = Inr (out, d') \<Longrightarrow>
   out \<in> {Responded 200 ok_body,
          Responded 200 (error_body ''Unknown provider''),
          Responded 200 (error_body ''Configuration error''),
          Responded 200 (error_body ''Missing signature''),
          Responded 200 (error_body ''Invalid signature'')}"
  unfolding handleWebhook_try_def
  by (auto simp: Let_def split: sum.splits option.splits if_splits)

lemma handleWebhook_store: "snd (handleWebhook rt env st fx req d) = d"
  unfolding handleWebhook_def
  by (auto split: sum.split dest: handleWebhook_try_store)

section \<open>The webhook endpoint\<close>

lemma handleWebhook_cases:
  "handleWebhook rt env st fx req d =
     ((case determineProvider (headers req) (body req) of
         Inl e \<Rightarrow> Responded 200 (error_body ''Error processing webhook'')
       | Inr None \<Rightarrow> Responded 200 (error_body ''Unknown provider'')
       | Inr (Some provider) \<Rightarrow>
           if getWebhookSecret env provider = []
           then Responded 200 (error_body ''Configuration error'')
           else if getSignatureFromHeaders (headers req) provider = []
           then Responded 200 (error_body ''Missing signature'')
           else if verifyWebhookSignature rt
                     (if present (rawBody req) then rawBody req
                      else json_stringify rt (body req))
                     (Some (getSignatureFromHeaders (headers req) provider))
                     (Some (getWebhookSecret env provider)) = Inr True
           then Responded 200 ok_body
           else Responded 200 (error_body ''Invalid signature'')), d)"
proof (cases "determineProvider (headers req) (body req)")
  case (Inl e)
  then show ?thesis
    by (simp add: handleWebhook_def handleWebhook_try_def)
next
  case (Inr found)
  show ?thesis
  proof (cases found)
    case None
    with Inr show ?thesis
      by (simp add: handleWebhook_def handleWebhook_try_def)
  next
    case (Some provider)
    obtain b where v: "verifyWebhookSignature rt
                     (if present (rawBody req) then rawBody req
                      else json_stringify rt (body req))
                     (Some (getSignatureFromHeaders (headers req) provider))
                     (Some (getWebhookSecret env provider)) = Inr b"
      using verify_total by blast
    from Inr Some v show ?thesis
      by (cases b) (simp_all add: handleWebhook_def handleWebhook_try_def Let_def dispatch_parsed)
  qed
qed

text \<open>
  What \<open>handleWebhook\<close> answers, for every request that reaches it: status 200 always;
  \<open>{status: 'ok'}\<close> exactly when a provider is determined, its secret is configured,
  its signature header is present and the signature verifies; otherwise
  \<open>{status: 'error', message}\<close> with the message of the step that failed, and
  \<open>Error processing webhook\<close> when reading the body throws. The store is left as it
  was in every case.
\<close>

theorem handleWebhook_answer:
  "handleWebhook rt env st fx req d =
     ((case determineProvider (headers req) (body req) of
         Inl e \<Rightarrow> Responded 200 (error_body ''Error processing webhook'')
       | Inr None \<Rightarrow> Responded 200 (error_body ''Unknown provider'')
       | Inr (Some provider) \<Rightarrow>
           if getWebhookSecret env provider = []
           then Responded 200 (error_body ''Configuration error'')
           else if getSignatureFromHeaders (headers req) provider = []
           then Responded 200 (error_body ''Missing signature'')
           else if verifyWebhookSignature rt
                     (if present (rawBody req) then rawBody req
                      else json_stringify rt (body req))
                     (Some (getSignatureFromHeaders (headers req) provider))
                     (Some (getWebhookSecret env provider)) = Inr True
           then Responded 200 ok_body
           else Responded 200 (error_body ''Invalid signature'')), d)"
  by (rule handleWebhook_cases)

lemma endpoint_parse_error:
  "captureRawBody (request_path dl) (sent_headers dl) (stream dl) = Inr raw \<Longrightarrow>
   parsed dl = Inl e \<Longrightarrow>
   webhook_endpoint rt env st fx dl d = (errorHandler e, d)"
  by (simp add: webhook_endpoint_def)

lemma malformed_delivery_captured:
  "captureRawBody (request_path malformed_delivery) (sent_headers malformed_delivery)
     (stream malformed_delivery) = Inr (Some malformed_raw)"
  by (simp add: captureRawBody_def malformed_delivery_def json_content_def)

text \<open>
  C4, at the input where it fails. A webhook whose body is not JSON is stopped by the
  body parser, which hands a SyntaxError to \<open>next\<close>; \<open>errorHandler\<close> answers it
  with status 500 and \<open>{status: 'error', message: 'Internal server error'}\<close>. The
  handler is not reached; had the request reached it with no body, it would have
  answered 200.
\<close>

theorem malformed_json_answered_500:
  "webhook_endpoint rt env st fx malformed_delivery d
     = (Responded 500 (error_body ''Internal server error''), d)
   \<and> handleWebhook rt env st fx
       \<lparr>rawBody = Some malformed_raw, body = JUndefined,
        headers = sent_headers malformed_delivery\<rparr> d
     = (Responded 200 (error_body ''Error processing webhook''), d)"
proof
  have "parsed malformed_delivery = Inl SyntaxError"
    by (simp add: malformed_delivery_def)
  from endpoint_parse_error[OF malformed_delivery_captured this]
  show "webhook_endpoint rt env st fx malformed_delivery d
        = (Responded 500 (error_body ''Internal server error''), d)"
    by (simp add: errorHandler_def)
next
  have "determineProvider (sent_headers malformed_delivery) JUndefined = Inl TypeError"
    by (simp add: determineProvider_def malformed_delivery_def all_three_def)
  then show "handleWebhook rt env st fx
       \<lparr>rawBody = Some malformed_raw, body = JUndefined,
        headers = sent_headers malformed_delivery\<rparr> d
     = (Responded 200 (error_body ''Error processing webhook''), d)"
    by (simp add: handleWebhook_cases)
qed

section \<open>Reading a notification\<close>

lemma falsy_iff: "falsy v = (\<not> truthy v)"
  by (cases v) auto

lemma read_either_total:
  "read_either n a b = Inr x \<Longrightarrow> \<exists>y. read_either n c e = Inr y"
  by (cases n) (auto simp: read_either_def)


section \<open>Filters compare text\<close>

text \<open>
  A filter sees the text of its value only: the number 7 and the string \<open>7\<close> select
  the same rows, in whatever column.
\<close>

lemma eq_filter_number_as_text: "eq_filter st c (JNum 7) = eq_filter st c (JStr ''7'')"
  by (simp add: eq_filter_def)

lemma sample_store_filter: "eq_filter sample_store c (JStr s) = Some s"
  by (simp add: eq_filter_def sample_store_def)

lemma sample_store_written: "cell_written sample_store c (JStr s) = Some (Some s)"
  by (simp add: sample_store_def)

section \<open>The purchase handler\<close>


lemma purchased_eq:
  assumes "read_either n ''userId'' ''user_id'' = Inr u"
    and "read_either n ''productId'' ''product_id'' = Inr p"
    and "read_either n ''transactionId'' ''transaction_id'' = Inr tid"
  shows "handleSubscriptionPurchased st n f t d =
         (if truthy u \<and> truthy p \<and> f = NoFault then upsert_purchase st u p tid t d else d)"
  using assms by (cases f) (simp_all add: handleSubscriptionPurchased_def falsy_iff)




lemma purchased_events:
  "subscription_events (handleSubscriptionPurchased st n f t d) = subscription_events d"
  unfolding handleSubscriptionPurchased_def
  by (cases f) (simp_all add: upsert_purchase_def split: sum.split option.split)




lemma purchase_notification_reads:
  "read_either purchase_notification ''userId'' ''user_id'' = Inr (JStr user_1)"
  "read_either purchase_notification ''productId'' ''product_id''
   = Inr (JStr ''monthly_subscription'')"
  "read_either purchase_notification ''transactionId'' ''transaction_id'' = Inr (JStr ''T1'')"
  by (simp_all add: purchase_notification_def read_either_def user_1_def)

lemma user_1_truthy: "truthy (JStr user_1)"
  by (simp add: user_1_def)

lemma sample_purchase_row:
  "purchase_row sample_store (JStr user_1) (JStr ''monthly_subscription'') (JStr ''T1'') t
   = Some \<lparr>user_id = Some user_1, plan = None, product_id = Some ''monthly_subscription'',
           transaction_id = Some ''T1'', expiry_date = None, trial_end_date = None,
           is_lifetime = None, is_active = Some True, refunded = Some False,
           refund_date = None, updated_at = Some t\<rparr>"
  by (simp add: purchase_row_def sample_store_def)



section \<open>The expiry handler\<close>



lemma update_expired_events:
  "subscription_events (update_expired st u p now db_now d) = subscription_events d"
  by (simp add: update_expired_def split: option.split)

lemma expired_events:
  "subscription_events (handleSubscriptionExpired st n f now db_now d) = subscription_events d"
  unfolding handleSubscriptionExpired_def
  by (cases f) (simp_all add: update_expired_events split: sum.split)







section \<open>The refund handler\<close>

lemma refunded_eq:
  assumes "read_either n ''userId'' ''user_id'' = Inr u"
    and "read_either n ''productId'' ''product_id'' = Inr p"
    and "read_either n ''originalTransactionId'' ''original_transaction_id'' = Inr orig"
  shows "handleSubscriptionRefunded st n f1 f2 t1 t2 t3 db_now d =
         (if truthy u \<and> f1 = NoFault then
            (case update_refunded st u orig p t1 t2 db_now d of
               None \<Rightarrow> d
             | Some d1 \<Rightarrow>
                 if f2 = NoFault then insert_event (refund_event st u p orig t3 n) d1 else d1)
          else d)"
  using assms
  by (cases f1; cases f2)
     (simp_all add: handleSubscriptionRefunded_def falsy_iff split: option.split)



lemma update_refunded_events:
  "update_refunded st u orig p t1 t2 db_now d = Some d1 \<Longrightarrow>
   subscription_events d1 = subscription_events d"
  by (auto simp: update_refunded_def split: option.splits)

lemma update_refunded_accepted:
  "(update_refunded st u orig p t1 t2 db_now d = None)
   = (eq_filter st SubscriptionUser u = None \<or> refund_filter st orig p = None)"
  by (auto simp: update_refunded_def split: option.splits)


lemma insert_event_log:
  "subscription_events (insert_event ev d)
   = subscription_events d @ (case ev of None \<Rightarrow> [] | Some e \<Rightarrow> [e])"
  by (simp add: insert_event_def split: option.split)


lemma refunded_events:
  assumes "read_either n ''userId'' ''user_id'' = Inr u"
    and "read_either n ''productId'' ''product_id'' = Inr p"
    and "read_either n ''originalTransactionId'' ''original_transaction_id'' = Inr orig"
  shows "subscription_events (handleSubscriptionRefunded st n f1 f2 t1 t2 t3 db_now d) =
         (if truthy u \<and> f1 = NoFault \<and> f2 = NoFault
             \<and> (\<exists>ut. eq_filter st SubscriptionUser u = Some ut)
             \<and> (\<exists>vt. refund_filter st orig p = Some vt)
          then subscription_events d
                 @ (case refund_event st u p orig t3 n of None \<Rightarrow> [] | Some e \<Rightarrow> [e])
          else subscription_events d)"
proof (cases "update_refunded st u orig p t1 t2 db_now d")
  case None
  with update_refunded_accepted[of st u orig p t1 t2 db_now d] show ?thesis
    by (auto simp: refunded_eq[OF assms])
next
  case (Some d1)
  with update_refunded_accepted[of st u orig p t1 t2 db_now d]
  have acc: "(\<exists>ut. eq_filter st SubscriptionUser u = Some ut)
             \<and> (\<exists>vt. refund_filter st orig p = Some vt)"
    by auto
  from update_refunded_events[OF Some] Some acc show ?thesis
    by (simp add: refunded_eq[OF assms] insert_event_log)
qed



lemma refund_B_old_reads:
  "read_either refund_B_old ''userId'' ''user_id'' = Inr (JStr user_1)"
  "read_either refund_B_old ''productId'' ''product_id'' = Inr (JStr ''monthly_subscription'')"
  "read_either refund_B_old ''originalTransactionId'' ''original_transaction_id''
   = Inr (JStr ''B'')"
  by (simp_all add: refund_B_old_def read_either_def user_1_def)

lemma sample_refund_filter:
  "refund_filter sample_store (JStr ''B'') (JStr ''monthly_subscription'') = Some ''B''"
  by (simp add: refund_filter_def js_or_def sample_store_filter)





text \<open>
  What the refund handler leaves in the event log. A refund with a user id whose
  update is accepted and does not fail, and whose insert does not fail, appends one
  record, unless a column of the log refuses its value: the type \<open>refund\<close>, the user,
  the product and the original transaction id of the notification, the time, and as
  metadata the notification as it is sent in JSON, with nothing added about an
  outcome. It does so whether or not a row was changed. In every other case the log
  stays as it is.
\<close>

theorem refund_appends_one_record:
  "read_either n ''userId'' ''user_id'' = Inr u \<and>
   read_either n ''productId'' ''product_id'' = Inr p \<and>
   read_either n ''originalTransactionId'' ''original_transaction_id'' = Inr orig \<longrightarrow>
     subscription_events (handleSubscriptionRefunded st n f1 f2 t1 t2 t3 db_now d) =
       (if truthy u \<and> f1 = NoFault \<and> f2 = NoFault
           \<and> (\<exists>ut. eq_filter st SubscriptionUser u = Some ut)
           \<and> (\<exists>vt. refund_filter st orig p = Some vt)
        then subscription_events d
               @ (case refund_event st u p orig t3 n of None \<Rightarrow> [] | Some e \<Rightarrow> [e])
        else subscription_events d)"
  by (intro impI, elim conjE) (rule refunded_events)

lemma sample_refund_event:
  "refund_event sample_store (JStr user_1) (JStr ''monthly_subscription'') (JStr ''B'') 3000
     refund_B_old
   = Some \<lparr>ev_user_id = Some user_1, event_type = ''refund'',
           ev_product_id = Some ''monthly_subscription'', ev_transaction_id = Some ''B'',
           created_at = 3000, metadata = refund_B_old\<rparr>"
  by (simp add: refund_event_def sample_store_def refund_B_old_def)

theorem refund_appends_witness:
  "read_either refund_B_old ''userId'' ''user_id'' = Inr (JStr user_1)
   \<and> read_either refund_B_old ''productId'' ''product_id'' = Inr (JStr ''monthly_subscription'')
   \<and> read_either refund_B_old ''originalTransactionId'' ''original_transaction_id''
       = Inr (JStr ''B'')
   \<and> subscription_events
       (handleSubscriptionRefunded sample_store refund_B_old NoFault NoFault 3000 3000 3000 3500
          db_B)
     = [\<lparr>ev_user_id = Some user_1, event_type = ''refund'',
         ev_product_id = Some ''monthly_subscription'', ev_transaction_id = Some ''B'',
         created_at = 3000, metadata = refund_B_old\<rparr>]"
proof -
  have log: "subscription_events db_B = []"
    by (simp add: db_B_def)
  have acc: "(\<exists>ut. eq_filter sample_store SubscriptionUser (JStr user_1) = Some ut)
             \<and> (\<exists>vt. refund_filter sample_store (JStr ''B'') (JStr ''monthly_subscription'')
                      = Some vt)"
    by (simp add: sample_store_filter sample_refund_filter)
  from refund_appends_one_record
         [of refund_B_old "JStr user_1" "JStr ''monthly_subscription''" "JStr ''B''"
             sample_store NoFault NoFault 3000 3000 3000 3500 db_B] refund_B_old_reads
  have "subscription_events
          (handleSubscriptionRefunded sample_store refund_B_old NoFault NoFault 3000 3000 3000
             3500 db_B) =
       (if truthy (JStr user_1) \<and> NoFault = NoFault \<and> NoFault = NoFault
           \<and> (\<exists>ut. eq_filter sample_store SubscriptionUser (JStr user_1) = Some ut)
           \<and> (\<exists>vt. refund_filter sample_store (JStr ''B'') (JStr ''monthly_subscription'')
                    = Some vt)
        then subscription_events db_B
               @ (case refund_event sample_store (JStr user_1) (JStr ''monthly_subscription'')
                         (JStr ''B'') 3000 refund_B_old of
                    None \<Rightarrow> [] | Some e \<Rightarrow> [e])
        else subscription_events db_B)"
    by blast
  with acc user_1_truthy have "subscription_events
          (handleSubscriptionRefunded sample_store refund_B_old NoFault NoFault 3000 3000 3000
             3500 db_B)
     = [\<lparr>ev_user_id = Some user_1, event_type = ''refund'',
         ev_product_id = Some ''monthly_subscription'', ev_transaction_id = Some ''B'',
         created_at = 3000, metadata = refund_B_old\<rparr>]"
    by (simp add: log sample_refund_event del: truthy.simps)
  with refund_B_old_reads show ?thesis by simp
qed

section \<open>The audit log\<close>

text \<open>
  C9, at the input where it fails. The sample purchase reaches its handler and is
  written to the \<open>subscriptions\<close> table, and the event log has no record of it. The
  purchase handler and the expiry handler never write to the log, whatever the
  notification; and no webhook that comes through \<open>handleWebhook\<close>, verified or
  not, leaves a record there.
\<close>

theorem purchase_leaves_no_record:
  "subscriptions
     (handleSubscriptionPurchased sample_store purchase_notification NoFault 1000 empty_db)
     = [\<lparr>user_id = Some user_1, plan = None, product_id = Some ''monthly_subscription'',
         transaction_id = Some ''T1'', expiry_date = None, trial_end_date = None,
         is_lifetime = None, is_active = Some True, refunded = Some False,
         refund_date = None, updated_at = Some 1000\<rparr>]
   \<and> subscription_events
       (handleSubscriptionPurchased sample_store purchase_notification NoFault 1000 empty_db)
     = []
   \<and> subscription_events (handleSubscriptionPurchased st n f t d) = subscription_events d
   \<and> subscription_events (handleSubscriptionExpired st n f t db_now d) = subscription_events d
   \<and> subscription_events (snd (handleWebhook rt env st fx req d)) = subscription_events d"
proof -
  have "handleSubscriptionPurchased sample_store purchase_notification NoFault 1000 empty_db
        = upsert_purchase sample_store (JStr user_1) (JStr ''monthly_subscription'')
            (JStr ''T1'') 1000 empty_db"
    by (simp add: purchased_eq[OF purchase_notification_reads] user_1_def)
  then show ?thesis
    by (simp add: upsert_purchase_def sample_purchase_row empty_db_def purchased_events
        expired_events handleWebhook_store)
qed

section \<open>The end-to-end purchase\<close>

lemma initial_buy_provider:
  "determineProvider (headers initial_buy_request) initial_buy_body = Inr (Some ''apple'')"
  by (simp add: determineProvider_def initial_buy_request_def all_three_def
      initial_buy_body_def)

lemma initial_buy_verified:
  "verifyWebhookSignature sample_runtime (Some initial_buy_raw)
     (Some ''sha256=6cfedf7d592aae5dca824ff02f7813e4ce3e308ea5d0e90089344b03cc5f69cc'')
     (Some ''s3cret'') = Inr True"
  using verify_hex[of initial_buy_raw "''s3cret''" sample_runtime]
  by (simp add: sample_hex sample_raw_nonempty)

lemma initial_buy_notification_reads:
  "read_either initial_buy_notification ''userId'' ''user_id'' = Inr (JStr ''u1'')"
  "read_either initial_buy_notification ''productId'' ''product_id''
   = Inr (JStr ''monthly_subscription'')"
  "read_either initial_buy_notification ''transactionId'' ''transaction_id'' = Inr (JStr ''T1'')"
  by (simp_all add: initial_buy_notification_def notification_of_def
      extractSubscriptionDetails_def extractSubscriptionDetails_try_def initial_buy_body_def
      read_either_def Let_def)

text \<open>
  C5, at the input where it fails. The sample Apple webhook (INITIAL_BUY for the
  monthly product, user \<open>u1\<close>, signed with the configured secret) on the empty store:
  the signature verifies, the endpoint answers \<open>{status: 'ok'}\<close>, and the store is
  still empty, whatever the types of its columns, since the event type comes out as
  \<open>unknown\<close> and the \<open>switch\<close> calls no handler. And the purchase handler, called
  with the notification the controller builds for this webhook, writes a row with
  neither plan nor expiry date, or no row at all when a column refuses its value.
\<close>

theorem initial_buy_webhook_writes_nothing:
  "verifyWebhookSignature sample_runtime (rawBody initial_buy_request)
     (Some (getSignatureFromHeaders (headers initial_buy_request) ''apple''))
     (Some (getWebhookSecret sample_env ''apple'')) = Inr True
   \<and> parseWebhookEventType (body initial_buy_request) ''apple'' = ''unknown''
   \<and> handleWebhook sample_runtime sample_env st sample_effects initial_buy_request empty_db
       = (Responded 200 ok_body, empty_db)
   \<and> subscriptions
       (handleSubscriptionPurchased st initial_buy_notification NoFault 1000 empty_db)
     = (case column_in st SubscriptionUser ''u1'' of
          None \<Rightarrow> []
        | Some u \<Rightarrow>
       (case column_in st SubscriptionProduct ''monthly_subscription'' of
          None \<Rightarrow> []
        | Some p \<Rightarrow>
       (case column_in st SubscriptionTransaction ''T1'' of
          None \<Rightarrow> []
        | Some t \<Rightarrow>
            [\<lparr>user_id = Some u, plan = None, product_id = Some p, transaction_id = Some t,
              expiry_date = None, trial_end_date = None, is_lifetime = None,
              is_active = Some True, refunded = Some False, refund_date = None,
              updated_at = Some 1000\<rparr>])))"
proof (intro conjI)
  have sig: "getSignatureFromHeaders (headers initial_buy_request) ''apple''
             = ''sha256=6cfedf7d592aae5dca824ff02f7813e4ce3e308ea5d0e90089344b03cc5f69cc''"
    by (simp add: getSignatureFromHeaders_def initial_buy_request_def)
  have sec: "getWebhookSecret sample_env ''apple'' = ''s3cret''"
    by (simp add: getWebhookSecret_def sample_env_def)
  have raw: "rawBody initial_buy_request = Some initial_buy_raw"
    by (simp add: initial_buy_request_def)
  have bdy: "body initial_buy_request = initial_buy_body"
    by (simp add: initial_buy_request_def)
  show v: "verifyWebhookSignature sample_runtime (rawBody initial_buy_request)
     (Some (getSignatureFromHeaders (headers initial_buy_request) ''apple''))
     (Some (getWebhookSecret sample_env ''apple'')) = Inr True"
    by (simp only: sig sec raw initial_buy_verified)
  show "parseWebhookEventType (body initial_buy_request) ''apple'' = ''unknown''"
    by (simp add: bdy initial_buy_body_def parseWebhookEventType_def
        parseWebhookEventType_try_def js_or_def)
  have "handleWebhook_try sample_runtime sample_env st sample_effects initial_buy_request
          empty_db
        = Inr (Responded 200 ok_body, empty_db)"
    unfolding handleWebhook_try_def
    by (simp add: raw bdy initial_buy_provider sig sec initial_buy_verified dispatch_parsed
        sample_raw_nonempty Let_def)
  then show "handleWebhook sample_runtime sample_env st sample_effects initial_buy_request
         empty_db
       = (Responded 200 ok_body, empty_db)"
    by (simp add: handleWebhook_def)
  show "subscriptions
       (handleSubscriptionPurchased st initial_buy_notification NoFault 1000 empty_db)
     = (case column_in st SubscriptionUser ''u1'' of
          None \<Rightarrow> []
        | Some u \<Rightarrow>
       (case column_in st SubscriptionProduct ''monthly_subscription'' of
          None \<Rightarrow> []
        | Some p \<Rightarrow>
       (case column_in st SubscriptionTransaction ''T1'' of
          None \<Rightarrow> []
        | Some t \<Rightarrow>
            [\<lparr>user_id = Some u, plan = None, product_id = Some p, transaction_id = Some t,
              expiry_date = None, trial_end_date = None, is_lifetime = None,
              is_active = Some True, refunded = Some False, refund_date = None,
              updated_at = Some 1000\<rparr>])))"
    by (simp add: purchased_eq[OF initial_buy_notification_reads] upsert_purchase_def
        purchase_row_def empty_db_def split: option.split)
qed

section \<open>Reading the status\<close>










text \<open>
  A user's only row, when it is marked lifetime, is active whatever the clock and its
  expiry date say.
\<close>

theorem lifetime_row_is_active:
  "eq_filter st SubscriptionUser (JStr userId) = Some ut \<and> rows_of_user ut d = [r]
   \<and> is_lifetime r = Some True \<longrightarrow>
     (\<exists>s. getSubscriptionStatus st d userId NoFault now = Inr s
           \<and> isActive s \<and> isLifetime s \<and> expiryDate s = expiry_date r)"
  by (simp add: getSubscriptionStatus_def select_single_def status_of_read_def
      status_of_row_def single_row_def)

theorem lifetime_row_is_active_witness:
  "eq_filter sample_store SubscriptionUser (JStr user_2) = Some user_2
   \<and> rows_of_user user_2
       \<lparr>subscriptions = [active_row_D\<lparr>is_lifetime := Some True, expiry_date := None\<rparr>],
        subscription_events = []\<rparr>
     = [active_row_D\<lparr>is_lifetime := Some True, expiry_date := None\<rparr>]
   \<and> is_lifetime (active_row_D\<lparr>is_lifetime := Some True, expiry_date := None\<rparr>) = Some True
   \<and> (\<exists>s. getSubscriptionStatus sample_store
              \<lparr>subscriptions = [active_row_D\<lparr>is_lifetime := Some True, expiry_date := None\<rparr>],
               subscription_events = []\<rparr> user_2 NoFault 99999 = Inr s
           \<and> isActive s \<and> isLifetime s \<and> expiryDate s = None)"
proof -
  let ?r = "active_row_D\<lparr>is_lifetime := Some True, expiry_date := None\<rparr>"
  let ?d = "\<lparr>subscriptions = [?r], subscription_events = []\<rparr>"
  have flt: "eq_filter sample_store SubscriptionUser (JStr user_2) = Some user_2"
    by (rule sample_store_filter)
  have a: "rows_of_user user_2 ?d = [?r]"
    by (simp add: rows_of_user_def active_row_D_def)
  have b: "is_lifetime ?r = Some True" by simp
  have c: "expiry_date ?r = None" by simp
  from lifetime_row_is_active[of sample_store user_2 user_2 ?d ?r 99999] flt a b
  have "\<exists>s. getSubscriptionStatus sample_store ?d user_2 NoFault 99999 = Inr s
           \<and> isActive s \<and> isLifetime s \<and> expiryDate s = expiry_date ?r"
    by blast
  with flt a b c show ?thesis by simp
qed

section \<open>What the endpoint never does\<close>

text \<open>
  Whatever the request, \<open>handleWebhook\<close> leaves the store as it found it: the event
  type it switches on is one of the five canonical kinds, and the \<open>switch\<close> has cases
  for the providers' raw type names only.
\<close>

theorem handleWebhook_never_writes:
  "snd (handleWebhook rt env st fx req d) = d"
  by (rule handleWebhook_store)

end
